theory Spec2Isabelle
  imports Complex_Main "HOL-Library.Sublist"
begin

section \<open>Python strings\<close>

text \<open>
  A Python \<^verbatim>\<open>str\<close> is a sequence of Unicode code points, so it is modelled as a list of
  natural numbers (the code points). \<open>ascii\<close> turns an ASCII literal into such a list;
  characters outside ASCII (the emoji of the user-facing messages) are written as their
  code points.
\<close>

type_synonym pystr = "nat list"

definition ascii :: "string \<Rightarrow> pystr" where
  "ascii s = map of_char s"

text \<open>
  \<^verbatim>\<open>str.isspace\<close> for one code point, as CPython decides it (the table of
  \<^verbatim>\<open>_PyUnicode_IsWhitespace\<close>): the characters \<^verbatim>\<open>str.strip()\<close> removes.
\<close>

definition py_isspace :: "nat \<Rightarrow> bool" where
  "py_isspace c \<longleftrightarrow>
     (9 \<le> c \<and> c \<le> 13) \<or> (28 \<le> c \<and> c \<le> 32) \<or> c = 133 \<or> c = 160 \<or>
     c = 5760 \<or> (8192 \<le> c \<and> c \<le> 8202) \<or> c = 8232 \<or> c = 8233 \<or>
     c = 8239 \<or> c = 8287 \<or> c = 12288"

text \<open>\<^verbatim>\<open>s.strip()\<close>: leading and trailing whitespace removed.\<close>

definition strip :: "pystr \<Rightarrow> pystr" where
  "strip s = rev (dropWhile py_isspace (rev (dropWhile py_isspace s)))"

text \<open>\<^verbatim>\<open>s.startswith(p)\<close> and \<^verbatim>\<open>p in s\<close> (substring test).\<close>

definition startswith :: "pystr \<Rightarrow> pystr \<Rightarrow> bool" where
  "startswith s p = prefix p s"

definition py_in :: "pystr \<Rightarrow> pystr \<Rightarrow> bool" where
  "py_in p s = sublist p s"

section \<open>Response formatter\<close>

text \<open>
  The heading \<^verbatim>\<open>"## <robot> Agent Response\n\n"\<close>; the robot emoji is U+1F916.
\<close>

definition agent_heading :: pystr where
  "agent_heading = ascii ''## '' @ [0x1F916] @ ascii '' Agent Response\<newline>\<newline>''"

text \<open>
  \<^verbatim>\<open>format_agent_response(response_text)\<close>. The argument is a \<^verbatim>\<open>str\<close> or \<^verbatim>\<open>None\<close>
  (\<open>None\<close>); \<^verbatim>\<open>not response_text\<close> holds for \<^verbatim>\<open>None\<close> and for the empty string.
  Both branches of the test for code-like text are kept as the source has them.
\<close>

definition format_agent_response :: "pystr option \<Rightarrow> pystr" where
  "format_agent_response response_text =
     (case response_text of
        None \<Rightarrow> agent_heading @ ascii ''No response content available.''
      | Some text0 \<Rightarrow>
          if text0 = [] then agent_heading @ ascii ''No response content available.''
          else
            let text1 = strip text0 in
            if \<not> startswith text1 (ascii ''#'') then
              (if py_in (ascii ''```'') text1 \<or> startswith text1 (ascii ''def '')
                    \<or> startswith text1 (ascii ''class '')
               then agent_heading @ text1
               else agent_heading @ text1)
            else text1)"


text \<open>
  A string is trimmed when it is empty or neither starts nor ends with whitespace: the
  strings \<open>strip\<close> leaves as they are.
\<close>

definition trimmed :: "pystr \<Rightarrow> bool" where
  "trimmed s \<longleftrightarrow> s = [] \<or> (\<not> py_isspace (hd s) \<and> \<not> py_isspace (last s))"

section \<open>Exceptions and attributes\<close>

text \<open>
  A Python exception is a value: its class and its message (\<^verbatim>\<open>str(e)\<close>). \<open>RemoteError\<close>
  stands for any \<^verbatim>\<open>Exception\<close> a call of the remote agent client raises. A function that
  may raise returns \<open>exn + 'a\<close>, with \<open>Inl\<close> the exception.
\<close>

datatype exn =
    AttributeError pystr
  | TimeoutError pystr
  | ValueError pystr
  | RemoteError pystr

fun exn_str :: "exn \<Rightarrow> pystr" where
  "exn_str (AttributeError m) = m"
| "exn_str (TimeoutError m) = m"
| "exn_str (ValueError m) = m"
| "exn_str (RemoteError m) = m"

text \<open>
  An attribute of a Python object that \<^verbatim>\<open>hasattr\<close> may find missing. Python's \<^verbatim>\<open>None\<close> as
  a value is \<open>None\<close> of an option type.
\<close>

datatype 'a attr = Missing | Attr 'a

text \<open>Truthiness of a \<^verbatim>\<open>str\<close>-or-\<^verbatim>\<open>None\<close> value: false for \<^verbatim>\<open>None\<close> and for \<^verbatim>\<open>""\<close>.\<close>

definition truthy :: "pystr option \<Rightarrow> bool" where
  "truthy v = (case v of None \<Rightarrow> False | Some s \<Rightarrow> s \<noteq> [])"

text \<open>\<^verbatim>\<open>str(n)\<close> for an integer: its decimal digits, with a sign when negative.\<close>

fun str_nat :: "nat \<Rightarrow> pystr" where
  "str_nat n = (if n < 10 then [48 + n] else str_nat (n div 10) @ [48 + n mod 10])"

definition str_int :: "int \<Rightarrow> pystr" where
  "str_int i = (if i < 0 then 45 # str_nat (nat (- i)) else str_nat (nat i))"

section \<open>Python floats\<close>

text \<open>
  \<^verbatim>\<open>time.time()\<close> returns a Python \<^verbatim>\<open>float\<close>, an IEEE 754 binary64 number, and the
  subtraction of line 222 is the floating-point one: the exact difference, rounded to the
  nearest binary64 number, ties to the even significand. A finite float is modelled as
  the real number it denotes. \<open>binary64_round\<close> rounds a real to the binary64 grid: 53
  significant bits, the exponent of the last bit no lower than -1074. Infinities and
  \<^verbatim>\<open>nan\<close> are left out: the readings of a clock are finite and far from overflow. The
  comparison of a float with the integer \<^verbatim>\<open>max_wait_time\<close> is exact in Python.
\<close>

definition round_half_even :: "real \<Rightarrow> int" where
  "round_half_even x =
     (let f = \<lfloor>x\<rfloor>; d = x - of_int f in
      if d < 1 / 2 then f else if d > 1 / 2 then f + 1 else if even f then f else f + 1)"

definition binary64_round :: "real \<Rightarrow> real" where
  "binary64_round x =
     (if x = 0 then 0
      else
        let e = max (\<lfloor>log 2 \<bar>x\<bar>\<rfloor> - 52) (- 1074) in
        of_int (round_half_even (x / 2 powr of_int e)) * 2 powr of_int e)"

definition float_sub :: "real \<Rightarrow> real \<Rightarrow> real" where
  "float_sub a b = binary64_round (a - b)"

section \<open>Startup configuration\<close>

text \<open>
  The module-level validation of the three environment variables (lines 37 to 48). Each
  is the result of \<^verbatim>\<open>os.getenv\<close>: a string, or \<^verbatim>\<open>None\<close> when the variable is not set.
  \<^verbatim>\<open>all([...])\<close> is the truthiness of every element.
\<close>

definition validate_environment :: "pystr option \<Rightarrow> pystr option \<Rightarrow> pystr option \<Rightarrow> exn + unit" where
  "validate_environment endpoint api_key agent_ident =
     (if \<not> list_all truthy [endpoint, api_key, agent_ident] then
        Inl (ValueError
          (ascii ''Missing required environment variables. Please ensure you have set:\<newline>'' @
           ascii ''- AZURE_AI_FOUNDRY_ENDPOINT\<newline>'' @
           ascii ''- AZURE_AI_FOUNDRY_API_KEY\<newline>'' @
           ascii ''- AZURE_AI_FOUNDRY_AGENT_ID''))
      else Inr ())"

section \<open>Remote records\<close>

text \<open>
  The records of the remote agent service, with the attributes the code reads. A content
  part may or may not have a \<^verbatim>\<open>text\<close> attribute, whose object may or may not have a
  \<^verbatim>\<open>value\<close>; a part may or may not have a \<^verbatim>\<open>type\<close>. Timestamps are integers.
\<close>

record text_details =
  text_value :: "pystr option attr"

record content_part =
  part_text :: "text_details attr"
  part_type :: "pystr attr"

record message =
  msg_role :: pystr
  msg_content :: "content_part list attr"
  msg_created_at :: int

text \<open>
  A run. \<^verbatim>\<open>last_error\<close> may be missing, \<^verbatim>\<open>None\<close>, or a dictionary (an association list from
  keys to strings).
\<close>

record run =
  run_id :: pystr
  run_status :: pystr
  run_created_at :: int
  run_last_error :: "(pystr \<times> pystr) list option attr"

section \<open>Response extractor\<close>

text \<open>
  \<^verbatim>\<open>content_item.text.value\<close>: an attribute access, which raises \<^verbatim>\<open>AttributeError\<close> when
  the part has no \<^verbatim>\<open>text\<close> or the text has no \<^verbatim>\<open>value\<close>.
\<close>

definition get_text_value :: "content_part \<Rightarrow> exn + pystr option" where
  "get_text_value content_item =
     (case part_text content_item of
        Missing \<Rightarrow> Inl (AttributeError (ascii ''text''))
      | Attr t \<Rightarrow>
          (case text_value t of
             Missing \<Rightarrow> Inl (AttributeError (ascii ''value''))
           | Attr v \<Rightarrow> Inr v))"

text \<open>
  \<^verbatim>\<open>hasattr(content_item, 'text') and hasattr(content_item.text, 'value')\<close>.
\<close>

definition has_text_value :: "content_part \<Rightarrow> bool" where
  "has_text_value content_item =
     (case part_text content_item of
        Missing \<Rightarrow> False
      | Attr t \<Rightarrow> (case text_value t of Missing \<Rightarrow> False | Attr v \<Rightarrow> True))"

text \<open>
  The \<^verbatim>\<open>for content_item in message.content\<close> loop of \<^verbatim>\<open>extract_message_content\<close>
  (lines 237 to 242): each branch returns from the function; falling out of the loop
  returns \<^verbatim>\<open>None\<close>.
\<close>

fun scan_content :: "content_part list \<Rightarrow> exn + pystr option" where
  "scan_content [] = Inr None"
| "scan_content (content_item # rest) =
     (if has_text_value content_item then get_text_value content_item
      else if part_type content_item = Attr (ascii ''text'') then get_text_value content_item
      else scan_content rest)"

text \<open>
  \<^verbatim>\<open>extract_message_content(message)\<close>: the scan inside \<^verbatim>\<open>try\<close>, and
  \<^verbatim>\<open>except Exception: return None\<close> around it. The result type keeps the exception
  side, so that not raising is a property and not a consequence of the type.
\<close>

definition extract_message_content :: "message \<Rightarrow> exn + pystr option" where
  "extract_message_content message =
     (case (case msg_content message of
              Missing \<Rightarrow> Inr None
            | Attr content \<Rightarrow> if content \<noteq> [] then scan_content content else Inr None) of
        Inl e \<Rightarrow> Inr None
      | Inr v \<Rightarrow> Inr v)"

section \<open>Remote agent client and user interface\<close>

text \<open>
  What one call of \<^verbatim>\<open>handle_message\<close> does to the outside world, in order: a message
  sent to the chat, or a call of the remote agent client with its arguments.
\<close>

datatype event =
    Send pystr
  | MessagesCreate pystr pystr pystr
  | RunsCreate pystr pystr
  | RunsGet pystr pystr
  | RunsCancel pystr pystr
  | GetLastMessageText pystr pystr
  | MessagesList pystr
  | Sleep nat

text \<open>
  The outside world as one call of \<^verbatim>\<open>handle_message\<close> meets it: the configured agent
  identifier, what each remote call answers (an exception or a value; \<open>runs_get k\<close> is the
  answer to poll number \<open>k\<close>, counted from 0), and the successive readings of
  \<^verbatim>\<open>time.time()\<close> (\<open>time_time 0\<close> is the first), each a float, given as the real number
  it denotes.
\<close>

record remote =
  agent_id :: pystr
  messages_create :: "exn + unit"
  runs_create :: "exn + run"
  runs_get :: "nat \<Rightarrow> exn + run"
  runs_cancel :: "exn + unit"
  get_last_message_text_by_role :: "exn + pystr option"
  messages_list :: "exn + message list"
  time_time :: "nat \<Rightarrow> real"

section \<open>Poll loop\<close>

definition terminal_statuses :: "pystr list" where
  "terminal_statuses =
     [ascii ''completed'', ascii ''failed'', ascii ''cancelled'', ascii ''expired'']"

text \<open>The \<^verbatim>\<open>TimeoutError\<close> of line 228, with \<^verbatim>\<open>max_wait_time\<close> in its message.\<close>

definition timeout_error :: "int \<Rightarrow> exn" where
  "timeout_error max_wait_time =
     TimeoutError (ascii ''Agent response timed out after '' @ str_int max_wait_time @
       ascii '' seconds'')"

text \<open>
  The \<^verbatim>\<open>while True\<close> loop of \<^verbatim>\<open>wait_for_run_completion\<close> (lines 215 to 231). Iteration
  \<open>k\<close> polls the run, returns it when its status is terminal, and otherwise reads the
  clock: past the limit it calls \<^verbatim>\<open>runs.cancel\<close> (whatever that raises is swallowed by the
  bare \<^verbatim>\<open>except\<close>) and raises \<^verbatim>\<open>TimeoutError\<close>; within the limit it sleeps one second and
  goes round again. The loop may run forever: not returning is \<open>None\<close>.
\<close>

partial_function (option) poll_loop ::
  "remote \<Rightarrow> pystr \<Rightarrow> pystr \<Rightarrow> int \<Rightarrow> real \<Rightarrow> nat \<Rightarrow> event list \<Rightarrow> (event list \<times> (exn + run)) option"
where
  "poll_loop w thread_id rid max_wait_time start_time k tr =
     (let tr1 = tr @ [RunsGet thread_id rid] in
      case runs_get w k of
        Inl e \<Rightarrow> Some (tr1, Inl e)
      | Inr r \<Rightarrow>
          if run_status r \<in> set terminal_statuses then Some (tr1, Inr r)
          else if float_sub (time_time w (Suc k)) start_time > of_int max_wait_time then
            (case runs_cancel w of
               Inl e \<Rightarrow> Some (tr1 @ [RunsCancel thread_id rid], Inl (timeout_error max_wait_time))
             | Inr u \<Rightarrow> Some (tr1 @ [RunsCancel thread_id rid], Inl (timeout_error max_wait_time)))
          else poll_loop w thread_id rid max_wait_time start_time (Suc k) (tr1 @ [Sleep 1]))"

text \<open>
  \<^verbatim>\<open>wait_for_run_completion(thread_id, run_id, max_wait_time)\<close>: the start time is the
  first reading of the clock.
\<close>

definition wait_for_run_completion ::
  "remote \<Rightarrow> pystr \<Rightarrow> pystr \<Rightarrow> int \<Rightarrow> (event list \<times> (exn + run)) option"
where
  "wait_for_run_completion w thread_id rid max_wait_time =
     poll_loop w thread_id rid max_wait_time (time_time w 0) 0 []"

section \<open>Specification of the poll loop\<close>

text \<open>
  The test of line 222 at the clock reading after poll \<open>k\<close>, as the code computes it:
  the float difference to the start time exceeds \<^verbatim>\<open>max_wait_time\<close>.
\<close>

definition past_limit :: "remote \<Rightarrow> int \<Rightarrow> nat \<Rightarrow> bool" where
  "past_limit w max_wait_time k \<longleftrightarrow>
     float_sub (time_time w (Suc k)) (time_time w 0) > of_int max_wait_time"

text \<open>Poll \<open>k\<close> answers with a run whose status is not terminal.\<close>

definition still_running :: "remote \<Rightarrow> nat \<Rightarrow> bool" where
  "still_running w k =
     (case runs_get w k of
        Inl e \<Rightarrow> False
      | Inr r \<Rightarrow> run_status r \<notin> set terminal_statuses)"

text \<open>
  The events of polling \<open>j + 1\<close> times: a sleep of one second after every poll but the
  last.
\<close>

fun poll_events :: "pystr \<Rightarrow> pystr \<Rightarrow> nat \<Rightarrow> event list" where
  "poll_events thread_id rid 0 = [RunsGet thread_id rid]"
| "poll_events thread_id rid (Suc j) =
     [RunsGet thread_id rid, Sleep 1] @ poll_events thread_id rid j"

section \<open>Message handler\<close>

text \<open>The fixed notices and the templates of \<^verbatim>\<open>handle_message\<close>.\<close>

definition session_error_msg :: pystr where
  "session_error_msg =
     ascii ''# '' @ [9888, 65039] @ ascii '' Session Error\<newline>\<newline>'' @
     ascii ''**Chat session not properly initialized**\<newline>\<newline>'' @
     ascii ''Please refresh the page and try again.''"

definition no_response_msg :: pystr where
  "no_response_msg =
     ascii ''## '' @ [129300] @ ascii '' No Response\<newline>\<newline>'' @
     ascii ''The agent processed your message but didn'' @ [39] @
     ascii ''t provide a response. \<newline>\<newline>'' @
     ascii ''**Please try:**\<newline>'' @
     ascii ''- Rephrasing your question\<newline>'' @
     ascii ''- Being more specific about what you need\<newline>'' @
     ascii ''- Asking a different question''"

definition failed_msg :: "pystr \<Rightarrow> pystr" where
  "failed_msg error_message =
     ascii ''## '' @ [10060] @ ascii '' Processing Failed\<newline>\<newline>'' @
     ascii ''**The agent encountered an error while processing your message:**\<newline>\<newline>'' @
     ascii ''```\<newline>'' @ error_message @ ascii ''\<newline>```\<newline>\<newline>'' @
     ascii ''Please try rephrasing your question or ask something else.''"

definition status_msg :: "pystr \<Rightarrow> pystr" where
  "status_msg status =
     ascii ''## '' @ [10067] @ ascii '' Unexpected Status\<newline>\<newline>'' @
     ascii ''**The agent run completed with status:** `'' @ status @ ascii ''`\<newline>\<newline>'' @
     ascii ''This is unusual. Please try sending your message again.''"

definition processing_error_msg :: "pystr \<Rightarrow> pystr" where
  "processing_error_msg e_str =
     ascii ''## '' @ [10060] @ ascii '' Processing Error\<newline>\<newline>'' @
     ascii ''**An error occurred while processing your message:**\<newline>\<newline>'' @
     ascii ''```\<newline>'' @ e_str @ ascii ''\<newline>```\<newline>\<newline>'' @
     ascii ''Please try again or rephrase your question.''"

text \<open>
  The fallback loop over the listed messages (lines 156 to 164): the first message of the
  assistant, created no earlier than the run, whose extracted text is truthy. The result
  is that text (the caller formats and sends it), or \<^verbatim>\<open>None\<close> when the loop ends without
  a \<^verbatim>\<open>return\<close>.
\<close>

fun fallback_scan :: "run \<Rightarrow> message list \<Rightarrow> exn + pystr option" where
  "fallback_scan r [] = Inr None"
| "fallback_scan r (msg # rest) =
     (if msg_role msg = ascii ''assistant'' \<and> msg_created_at msg \<ge> run_created_at r then
        (case extract_message_content msg of
           Inl e \<Rightarrow> Inl e
         | Inr response_text \<Rightarrow>
             if truthy response_text then Inr response_text else fallback_scan r rest)
      else fallback_scan r rest)"

text \<open>The fallback (lines 153 to 175), after the events \<open>tr\<close>.\<close>

definition fallback :: "remote \<Rightarrow> pystr \<Rightarrow> run \<Rightarrow> event list \<Rightarrow> event list \<times> (exn + unit)" where
  "fallback w thread_id r tr =
     (let tr1 = tr @ [MessagesList thread_id] in
      case messages_list w of
        Inl e \<Rightarrow> (tr1, Inl e)
      | Inr messages_lst \<Rightarrow>
          (case fallback_scan r messages_lst of
             Inl e \<Rightarrow> (tr1, Inl e)
           | Inr (Some response_text) \<Rightarrow>
               (tr1 @ [Send (format_agent_response (Some response_text))], Inr ())
           | Inr None \<Rightarrow> (tr1 @ [Send no_response_msg], Inr ())))"

text \<open>
  The branch \<^verbatim>\<open>run.status == "completed"\<close> (lines 136 to 175): the convenience call
  inside \<^verbatim>\<open>try\<close>; a truthy text is formatted and sent; an exception or a falsy text
  goes on to the fallback.
\<close>

definition on_completed :: "remote \<Rightarrow> pystr \<Rightarrow> run \<Rightarrow> event list \<Rightarrow> event list \<times> (exn + unit)" where
  "on_completed w thread_id r tr =
     (let tr1 = tr @ [GetLastMessageText thread_id (ascii ''assistant'')] in
      case get_last_message_text_by_role w of
        Inl e \<Rightarrow> fallback w thread_id r tr1
      | Inr response_text \<Rightarrow>
          if truthy response_text then
            (tr1 @ [Send (format_agent_response response_text)], Inr ())
          else fallback w thread_id r tr1)"

text \<open>
  The branch \<^verbatim>\<open>run.status == "failed"\<close> (lines 177 to 189):
  \<^verbatim>\<open>getattr(run, 'last_error', {})\<close>, then the message of a truthy dictionary, with
  \<^verbatim>\<open>'Unknown error'\<close> as the default.
\<close>

definition error_message_of :: "run \<Rightarrow> pystr" where
  "error_message_of r =
     (let error_details = (case run_last_error r of Missing \<Rightarrow> Some [] | Attr d \<Rightarrow> d) in
      case error_details of
        None \<Rightarrow> ascii ''Unknown error''
      | Some d \<Rightarrow>
          if d \<noteq> [] then
            (case map_of d (ascii ''message'') of
               None \<Rightarrow> ascii ''Unknown error''
             | Some m \<Rightarrow> m)
          else ascii ''Unknown error'')"

text \<open>
  The body of the \<^verbatim>\<open>try\<close> of \<^verbatim>\<open>handle_message\<close> (lines 107 to 197). The session is
  the key-value store of the chat (\<^verbatim>\<open>not thread_id\<close> holds for \<^verbatim>\<open>None\<close> and for the empty
  string); \<open>content\<close> is the text of the user's message. The
  result is the events in order and whether the body ended normally (\<open>Inr\<close>) or by an
  exception (\<open>Inl\<close>); \<open>None\<close> when the poll loop never returns.
\<close>

definition handle_message_body ::
  "remote \<Rightarrow> (pystr \<rightharpoonup> pystr) \<Rightarrow> pystr \<Rightarrow> (event list \<times> (exn + unit)) option"
where
  "handle_message_body w user_session content =
     (case user_session (ascii ''thread_id'') of
        None \<Rightarrow> Some ([Send session_error_msg], Inr ())
      | Some tid \<Rightarrow>
          if tid = [] then Some ([Send session_error_msg], Inr ())
          else
            let tr1 = [MessagesCreate tid (ascii ''user'') content] in
            case messages_create w of
              Inl e \<Rightarrow> Some (tr1, Inl e)
            | Inr u \<Rightarrow>
                let tr2 = tr1 @ [RunsCreate tid (agent_id w)] in
                case runs_create w of
                  Inl e \<Rightarrow> Some (tr2, Inl e)
                | Inr run0 \<Rightarrow>
                    (case wait_for_run_completion w tid (run_id run0) 60 of
                       None \<Rightarrow> None
                     | Some (tr3, Inl e) \<Rightarrow> Some (tr2 @ tr3, Inl e)
                     | Some (tr3, Inr r) \<Rightarrow>
                         if run_status r = ascii ''completed'' then
                           Some (on_completed w tid r (tr2 @ tr3))
                         else if run_status r = ascii ''failed'' then
                           Some (tr2 @ tr3 @ [Send (failed_msg (error_message_of r))], Inr ())
                         else
                           Some (tr2 @ tr3 @ [Send (status_msg (run_status r))], Inr ())))"

text \<open>
  \<^verbatim>\<open>handle_message(message)\<close>: the body, and \<^verbatim>\<open>except Exception as e\<close> around it, which
  sends the processing-error notice with \<^verbatim>\<open>str(e)\<close>. The result is the events in order.
\<close>

definition handle_message :: "remote \<Rightarrow> (pystr \<rightharpoonup> pystr) \<Rightarrow> pystr \<Rightarrow> event list option" where
  "handle_message w user_session content =
     (case handle_message_body w user_session content of
        None \<Rightarrow> None
      | Some (tr, Inl e) \<Rightarrow> Some (tr @ [Send (processing_error_msg (exn_str e))])
      | Some (tr, Inr u) \<Rightarrow> Some tr)"

section \<open>Example records\<close>

text \<open>
  Content parts as the service sends them: an image part (no \<^verbatim>\<open>text\<close>), a text part, and
  a part typed \<^verbatim>\<open>text\<close> whose text object has no \<^verbatim>\<open>value\<close>.
\<close>

definition image_part :: content_part where
  "image_part = \<lparr>part_text = Missing, part_type = Attr (ascii ''image_file'')\<rparr>"

definition text_part :: "pystr \<Rightarrow> content_part" where
  "text_part s = \<lparr>part_text = Attr \<lparr>text_value = Attr (Some s)\<rparr>, part_type = Attr (ascii ''text'')\<rparr>"

definition broken_text_part :: content_part where
  "broken_text_part = \<lparr>part_text = Attr \<lparr>text_value = Missing\<rparr>, part_type = Attr (ascii ''text'')\<rparr>"

text \<open>
  A run of the example thread with a given status, created at time 100, and an outside
  world for one call of \<^verbatim>\<open>handle_message\<close>: every remote call succeeds but
  \<^verbatim>\<open>runs.cancel\<close>, which raises; poll number \<open>k\<close> finds the run \<open>polls k\<close>; the clock
  readings are one second apart.
\<close>

definition run_with_status :: "pystr \<Rightarrow> run" where
  "run_with_status s =
     \<lparr>run_id = ascii ''r1'', run_status = s, run_created_at = 100, run_last_error = Missing\<rparr>"

definition example_remote :: "(nat \<Rightarrow> run) \<Rightarrow> exn + pystr option \<Rightarrow> message list \<Rightarrow> remote" where
  "example_remote polls primary msgs =
     \<lparr>agent_id = ascii ''agent-1'',
      messages_create = Inr (),
      runs_create = Inr (run_with_status (ascii ''queued'')),
      runs_get = (\<lambda>k. Inr (polls k)),
      runs_cancel = Inl (RemoteError (ascii ''cannot cancel'')),
      get_last_message_text_by_role = primary,
      messages_list = Inr msgs,
      time_time = (\<lambda>k. of_nat k)\<rparr>"

text \<open>
  Polls of a run that completes at the third poll, and of a run that has one status at
  every poll.
\<close>

definition completes_at_third_poll :: "nat \<Rightarrow> run" where
  "completes_at_third_poll k =
     run_with_status
       (if k = 0 then ascii ''queued'' else if k = 1 then ascii ''in_progress''
        else ascii ''completed'')"

definition always_status :: "pystr \<Rightarrow> nat \<Rightarrow> run" where
  "always_status s k = run_with_status s"

text \<open>
  The same world with a run that never leaves \<^verbatim>\<open>in_progress\<close> and a clock that does not
  advance: every reading is the start time.
\<close>

definition frozen_clock_remote :: remote where
  "frozen_clock_remote =
     (example_remote (always_status (ascii ''in_progress'')) (Inr None) [])
       \<lparr>time_time := (\<lambda>k. 0)\<rparr>"

text \<open>
  The example world with a run that is completed at the first poll, no text from the
  convenience call, and a listing of the messages that raises.
\<close>

definition listing_fails_remote :: remote where
  "listing_fails_remote =
     (example_remote (always_status (ascii ''completed'')) (Inr None) [])
       \<lparr>messages_list := Inl (RemoteError (ascii ''service unavailable''))\<rparr>"

text \<open>A failed run whose \<^verbatim>\<open>last_error\<close> has a code and a message.\<close>

definition rate_limited_run :: run where
  "rate_limited_run =
     \<lparr>run_id = ascii ''r1'', run_status = ascii ''failed'', run_created_at = 100,
      run_last_error = Attr (Some [(ascii ''code'', ascii ''rate_limit_exceeded''),
        (ascii ''message'', ascii ''Rate limit is exceeded.'')])\<rparr>"

text \<open>The session after a successful chat start, holding the thread \<^verbatim>\<open>t1\<close>.\<close>

definition example_session :: "pystr \<rightharpoonup> pystr" where
  "example_session = [ascii ''thread_id'' \<mapsto> ascii ''t1'']"

text \<open>
  Two messages of the assistant, both created after the example run: one with an image
  only, one with the text \<^verbatim>\<open>Hi\<close>.
\<close>

definition image_only_message :: message where
  "image_only_message =
     \<lparr>msg_role = ascii ''assistant'', msg_content = Attr [image_part], msg_created_at = 101\<rparr>"

definition hi_message :: message where
  "hi_message =
     \<lparr>msg_role = ascii ''assistant'', msg_content = Attr [text_part (ascii ''Hi'')],
      msg_created_at = 102\<rparr>"

section \<open>Specification of the completed branch\<close>

text \<open>
  What the convenience call yields: its text, or nothing when it raised. What the
  extractor yields for a message. A message qualifies for the fallback when the assistant
  wrote it, it was created no earlier than the run, and its extracted text is truthy.
\<close>

definition primary_text :: "remote \<Rightarrow> pystr option" where
  "primary_text w = (case get_last_message_text_by_role w of Inl e \<Rightarrow> None | Inr v \<Rightarrow> v)"

definition extracted_text :: "message \<Rightarrow> pystr option" where
  "extracted_text m = (case extract_message_content m of Inl e \<Rightarrow> None | Inr v \<Rightarrow> v)"

definition qualifies :: "run \<Rightarrow> message \<Rightarrow> bool" where
  "qualifies r m \<longleftrightarrow>
     msg_role m = ascii ''assistant'' \<and> msg_created_at m \<ge> run_created_at r \<and>
     truthy (extracted_text m)"

section \<open>Properties of the formatter\<close>

lemma ascii_Nil: "ascii [] = []"
  by (simp add: ascii_def)

lemma ascii_Cons: "ascii (c # cs) = of_char c # ascii cs"
  by (simp add: ascii_def)

lemmas ascii_simps = ascii_Nil ascii_Cons

lemma agent_heading_eq:
  "agent_heading = 35 # 35 # 32 # 129302 # ascii '' Agent Response\<newline>\<newline>''"
  by (simp add: agent_heading_def ascii_simps)

lemma agent_heading_starts: "startswith (agent_heading @ t) (ascii ''#'')"
  by (simp add: agent_heading_eq startswith_def ascii_simps)

lemma not_space_hash [simp]: "\<not> py_isspace 35"
  by (simp add: py_isspace_def)

lemma dropWhile_hd: "dropWhile P xs \<noteq> [] \<Longrightarrow> \<not> P (hd (dropWhile P xs))"
  by (simp add: hd_dropWhile)

lemma strip_id: "trimmed s \<Longrightarrow> strip s = s"
proof (cases "s = []")
  case True
  then show ?thesis by (simp add: strip_def)
next
  case False
  assume "trimmed s"
  with False have h: "\<not> py_isspace (hd s)" and l: "\<not> py_isspace (last s)"
    by (simp_all add: trimmed_def)
  from False h have a: "dropWhile py_isspace s = s"
    by (cases s) simp_all
  from False l have b: "dropWhile py_isspace (rev s) = rev s"
    by (cases "rev s") (simp_all add: last_rev [symmetric] hd_rev)
  show ?thesis by (simp add: strip_def a b)
qed

lemma trimmed_strip: "trimmed (strip s)"
proof (cases "strip s = []")
  case True
  then show ?thesis by (simp add: trimmed_def)
next
  case False
  let ?a = "dropWhile py_isspace s"
  let ?b = "dropWhile py_isspace (rev ?a)"
  from False have b: "?b \<noteq> []" by (simp add: strip_def)
  have a: "?a \<noteq> []"
  proof
    assume "?a = []"
    then have "?b = []" by (simp only: rev.simps dropWhile.simps)
    with b show False ..
  qed
  from b have l: "\<not> py_isspace (hd ?b)" by (rule dropWhile_hd)
  then have l': "\<not> py_isspace (last (strip s))"
    using b by (simp add: strip_def last_rev)
  from a have ha: "\<not> py_isspace (hd ?a)" by (rule dropWhile_hd)
  then have "\<not> py_isspace (last (rev ?a))" using a by (simp add: last_rev)
  then have "last ?b = last (rev ?a)" using a
    by (metis b last_appendR takeWhile_dropWhile_id)
  then have "hd (strip s) = hd ?a" using a b
    by (simp add: strip_def hd_rev last_rev)
  with ha l' False show ?thesis by (simp add: trimmed_def)
qed

lemma strip_strip: "strip (strip s) = strip s"
  by (rule strip_id) (rule trimmed_strip)

lemma trimmed_heading_append:
  assumes "trimmed t" "t \<noteq> []"
  shows "trimmed (agent_heading @ t)"
  using assms by (simp add: trimmed_def agent_heading_eq ascii_simps)

lemma strip_heading_ne: "strip agent_heading \<noteq> agent_heading"
proof
  assume "strip agent_heading = agent_heading"
  then have "trimmed agent_heading" using trimmed_strip [of agent_heading] by simp
  then show False by (simp add: trimmed_def agent_heading_eq py_isspace_def ascii_simps)
qed

lemma startswith_hash_trimmed:
  "trimmed t \<Longrightarrow> startswith t (ascii ''#'') \<Longrightarrow> t \<noteq> [] \<and> hd t = 35"
  by (cases t) (simp_all add: startswith_def ascii_simps)

lemma format_Some_nonempty:
  "s \<noteq> [] \<Longrightarrow> format_agent_response (Some s) =
     (if startswith (strip s) (ascii ''#'') then strip s else agent_heading @ strip s)"
  by (simp add: format_agent_response_def Let_def)

lemma format_starts_hash: "startswith (format_agent_response x) (ascii ''#'')"
proof (cases x)
  case None
  then show ?thesis by (simp add: format_agent_response_def agent_heading_starts)
next
  case (Some s)
  then show ?thesis
    by (cases "s = []")
      (simp_all add: format_Some_nonempty agent_heading_starts,
       simp add: format_agent_response_def agent_heading_starts)
qed

lemma format_nonempty: "format_agent_response x \<noteq> []"
  using format_starts_hash [of x] by (auto simp: startswith_def ascii_simps)

lemma dropWhile_snoc_keep: "\<not> P y \<Longrightarrow> \<exists>zs. dropWhile P (xs @ [y]) = zs @ [y]"
  by (induction xs) auto

lemma strip_starts_hash:
  assumes "startswith u (ascii ''#'')"
  shows "startswith (strip u) (ascii ''#'')"
proof -
  from assms obtain r where u: "u = 35 # r"
    by (cases u) (simp_all add: startswith_def ascii_simps)
  obtain zs where zs: "dropWhile py_isspace (rev r @ [35]) = zs @ [35]"
    using dropWhile_snoc_keep [of py_isspace 35 "rev r"] by auto
  show ?thesis
    by (simp add: u strip_def zs startswith_def ascii_simps)
qed

lemma format_trimmed_or:
  "trimmed (format_agent_response x) \<or> (\<exists>s. x = Some s \<and> s \<noteq> [] \<and> strip s = [])"
proof (cases x)
  case None
  then show ?thesis
    by (simp add: format_agent_response_def trimmed_def agent_heading_eq ascii_simps
        py_isspace_def)
next
  case (Some s)
  show ?thesis
  proof (cases "s = []")
    case True
    with Some show ?thesis
      by (simp add: format_agent_response_def trimmed_def agent_heading_eq ascii_simps
          py_isspace_def)
  next
    case False
    show ?thesis
    proof (cases "strip s = []")
      case True
      with Some False show ?thesis by simp
    next
      case ne: False
      have t: "trimmed (strip s)" by (rule trimmed_strip)
      from t ne have "trimmed (agent_heading @ strip s)" by (rule trimmed_heading_append)
      with Some False t show ?thesis
        by (simp add: format_Some_nonempty)
    qed
  qed
qed

lemma format_twice:
  "format_agent_response (Some (format_agent_response x)) = strip (format_agent_response x)"
proof -
  have "format_agent_response x \<noteq> []" by (rule format_nonempty)
  moreover have "startswith (format_agent_response x) (ascii ''#'')"
    by (rule format_starts_hash)
  then have "startswith (strip (format_agent_response x)) (ascii ''#'')"
    by (rule strip_starts_hash)
  ultimately show ?thesis by (simp add: format_Some_nonempty)
qed

lemma format_blank:
  "s \<noteq> [] \<Longrightarrow> strip s = [] \<Longrightarrow> format_agent_response (Some s) = agent_heading"
  by (simp add: format_Some_nonempty startswith_def ascii_simps)

lemma format_idem_iff:
  "format_agent_response (Some (format_agent_response x)) = format_agent_response x
     \<longleftrightarrow> \<not> (\<exists>s. x = Some s \<and> s \<noteq> [] \<and> strip s = [])"
proof (cases "\<exists>s. x = Some s \<and> s \<noteq> [] \<and> strip s = []")
  case True
  then obtain s where "x = Some s" "s \<noteq> []" "strip s = []" by blast
  then have e: "format_agent_response x = agent_heading" by (simp add: format_blank)
  have "format_agent_response (Some (format_agent_response x)) = strip (format_agent_response x)"
    by (rule format_twice)
  then have "format_agent_response (Some (format_agent_response x)) \<noteq> format_agent_response x"
    using strip_heading_ne by (simp only: e) simp
  with True show ?thesis by simp
next
  case False
  with format_trimmed_or [of x] have "trimmed (format_agent_response x)" by blast
  then have "strip (format_agent_response x) = format_agent_response x" by (rule strip_id)
  with False show ?thesis by (simp add: format_twice)
qed

text \<open>
  Claim C8. Absent input (\<^verbatim>\<open>None\<close> or the empty string) gives the fixed notice that no
  response content is available. Any other input is trimmed of surrounding whitespace;
  trimmed text that starts with \<^verbatim>\<open>#\<close> is returned as it is, and any other trimmed text
  gets the Agent Response heading in front, whether or not it looks like code (the test
  for code-like text does not show in the result). The output is never empty.
\<close>

theorem format_agent_response_spec:
  "format_agent_response None = agent_heading @ ascii ''No response content available.'' \<and>
   format_agent_response (Some []) = agent_heading @ ascii ''No response content available.'' \<and>
   (s \<noteq> [] \<longrightarrow>
      format_agent_response (Some s) =
        (if startswith (strip s) (ascii ''#'') then strip s else agent_heading @ strip s)) \<and>
   format_agent_response x \<noteq> []"
  by (simp add: format_Some_nonempty format_nonempty) (simp add: format_agent_response_def)

theorem format_agent_response_spec_witness:
  "format_agent_response (Some (ascii '' hi there  '')) = agent_heading @ ascii ''hi there'' \<and>
   format_agent_response (Some (ascii '' # Title'')) = ascii ''# Title'' \<and>
   format_agent_response (Some (ascii ''def f(): pass'')) = agent_heading @ ascii ''def f(): pass''"
  using format_agent_response_spec [of "ascii '' hi there  ''" None]
    format_agent_response_spec [of "ascii '' # Title''" None]
    format_agent_response_spec [of "ascii ''def f(): pass''" None]
  by (simp add: strip_def startswith_def ascii_simps py_isspace_def)

text \<open>
  Claim C4, as amended. Formatting a formatted text only trims it: the output of the
  formatter always starts with \<^verbatim>\<open>#\<close>, so the heading is never put in front a second
  time. The formatter is idempotent on every input but one kind: a non-empty input made
  of whitespace only, whose output is the bare heading, and the second pass trims the two
  newlines that end it.
\<close>

theorem format_agent_response_twice:
  "format_agent_response (Some (format_agent_response x)) = strip (format_agent_response x) \<and>
   (format_agent_response (Some (format_agent_response x)) = format_agent_response x
      \<longleftrightarrow> \<not> (\<exists>s. x = Some s \<and> s \<noteq> [] \<and> strip s = []))"
  using format_twice [of x] format_idem_iff [of x] by simp

text \<open>
  The claim as stated fails at the unheaded input \<^verbatim>\<open>"plain text"\<close>: formatting it twice
  gives what formatting it once gives.
\<close>

theorem format_agent_response_idempotent_plain_text:
  "\<not> startswith (ascii ''plain text'') (ascii ''#'') \<and>
   format_agent_response (Some (format_agent_response (Some (ascii ''plain text'')))) =
     format_agent_response (Some (ascii ''plain text''))"
proof -
  have "\<not> (\<exists>s. Some (ascii ''plain text'') = Some s \<and> s \<noteq> [] \<and> strip s = [])"
    by (simp add: strip_def ascii_simps py_isspace_def)
  then have "format_agent_response (Some (format_agent_response (Some (ascii ''plain text'')))) =
     format_agent_response (Some (ascii ''plain text''))"
    by (rule iffD2 [OF format_idem_iff])
  moreover have "\<not> startswith (ascii ''plain text'') (ascii ''#'')"
    by (simp add: startswith_def ascii_simps)
  ultimately show ?thesis by simp
qed

section \<open>Properties of the extractor\<close>

lemma sublist_eqI: "s = a @ x @ b \<Longrightarrow> sublist x s"
  unfolding sublist_def by blast

lemma get_text_value_has:
  "part_text p = Attr t \<Longrightarrow> text_value t = Attr v \<Longrightarrow> has_text_value p \<and> get_text_value p = Inr v"
  by (simp add: get_text_value_def has_text_value_def)

lemma get_text_value_hasnt: "\<not> has_text_value p \<Longrightarrow> \<exists>e. get_text_value p = Inl e"
  by (auto simp: get_text_value_def has_text_value_def split: attr.splits)

lemma scan_content_no_text:
  "\<forall>p\<in>set parts. \<not> has_text_value p \<Longrightarrow>
     (\<exists>e. scan_content parts = Inl e) \<or> scan_content parts = Inr None"
proof (induction parts)
  case Nil
  then show ?case by simp
next
  case (Cons p parts)
  then have "\<not> has_text_value p" by simp
  then obtain e where "get_text_value p = Inl e" using get_text_value_hasnt by blast
  with Cons show ?case by auto
qed

lemma scan_content_skip:
  "\<forall>q\<in>set pre. \<not> has_text_value q \<and> part_type q \<noteq> Attr (ascii ''text'') \<Longrightarrow>
     scan_content (pre @ rest) = scan_content rest"
  by (induction pre) auto

lemma extract_total: "\<exists>v. extract_message_content m = Inr v"
  by (simp add: extract_message_content_def split: sum.splits attr.splits)

lemma extract_of_scan:
  "msg_content m = Attr parts \<Longrightarrow> parts \<noteq> [] \<Longrightarrow>
     extract_message_content m = (case scan_content parts of Inl e \<Rightarrow> Inr None | Inr v \<Rightarrow> Inr v)"
  by (simp add: extract_message_content_def)

lemma extract_no_parts:
  "msg_content m = Missing \<or> msg_content m = Attr [] \<Longrightarrow> extract_message_content m = Inr None"
  by (auto simp: extract_message_content_def)

lemma extract_no_text:
  assumes "msg_content m = Attr parts" "\<forall>p\<in>set parts. \<not> has_text_value p"
  shows "extract_message_content m = Inr None"
proof (cases "parts = []")
  case True
  with assms show ?thesis by (simp add: extract_no_parts)
next
  case False
  from assms(2) have "(\<exists>e. scan_content parts = Inl e) \<or> scan_content parts = Inr None"
    by (rule scan_content_no_text)
  with assms(1) False show ?thesis by (auto simp: extract_of_scan)
qed

lemma extract_first_text:
  assumes "msg_content m = Attr (pre @ p # post)"
    and "\<forall>q\<in>set pre. \<not> has_text_value q \<and> part_type q \<noteq> Attr (ascii ''text'')"
    and "part_text p = Attr t" "text_value t = Attr v"
  shows "extract_message_content m = Inr v"
proof -
  have "scan_content (pre @ p # post) = scan_content (p # post)"
    using assms(2) by (rule scan_content_skip)
  also have "\<dots> = Inr v" using get_text_value_has [OF assms(3,4)] by simp
  finally show ?thesis using assms(1) by (simp add: extract_of_scan)
qed

lemma extract_malformed:
  assumes "msg_content m = Attr (pre @ p # post)"
    and "\<forall>q\<in>set pre. \<not> has_text_value q \<and> part_type q \<noteq> Attr (ascii ''text'')"
    and "\<not> has_text_value p" "part_type p = Attr (ascii ''text'')"
  shows "extract_message_content m = Inr None"
proof -
  have "scan_content (pre @ p # post) = scan_content (p # post)"
    using assms(2) by (rule scan_content_skip)
  moreover obtain e where "get_text_value p = Inl e"
    using get_text_value_hasnt [OF assms(3)] by blast
  ultimately have "scan_content (pre @ p # post) = Inl e" using assms(3,4) by simp
  then show ?thesis using assms(1) by (simp add: extract_of_scan)
qed

text \<open>
  Claim C5. \<^verbatim>\<open>extract_message_content\<close> never raises. It returns \<^verbatim>\<open>None\<close> for a message
  without content parts and for a message none of whose parts has a text value. Scanning
  the parts in order, it returns the text value of the first part that has one, the parts
  before it being parts without a text value that are not typed \<^verbatim>\<open>text\<close>. A part typed
  \<^verbatim>\<open>text\<close> that has no text value is malformed: the scan ends there with \<^verbatim>\<open>None\<close>.
\<close>

theorem extract_message_content_spec:
  "(\<exists>v. extract_message_content m = Inr v) \<and>
   (msg_content m = Missing \<or> msg_content m = Attr [] \<longrightarrow>
      extract_message_content m = Inr None) \<and>
   (msg_content m = Attr parts \<and> (\<forall>p\<in>set parts. \<not> has_text_value p) \<longrightarrow>
      extract_message_content m = Inr None) \<and>
   (msg_content m = Attr (pre @ p # post) \<and>
    (\<forall>q\<in>set pre. \<not> has_text_value q \<and> part_type q \<noteq> Attr (ascii ''text'')) \<and>
    part_text p = Attr t \<and> text_value t = Attr v \<longrightarrow>
      extract_message_content m = Inr v) \<and>
   (msg_content m = Attr (pre @ p # post) \<and>
    (\<forall>q\<in>set pre. \<not> has_text_value q \<and> part_type q \<noteq> Attr (ascii ''text'')) \<and>
    \<not> has_text_value p \<and> part_type p = Attr (ascii ''text'') \<longrightarrow>
      extract_message_content m = Inr None)"
  using extract_total [of m] extract_no_parts [of m] extract_no_text [of m parts]
    extract_first_text [of m pre p post t v] extract_malformed [of m pre p post]
  by blast

theorem extract_message_content_spec_witness:
  "extract_message_content
     \<lparr>msg_role = ascii ''assistant'', msg_content = Attr [], msg_created_at = 5\<rparr> = Inr None \<and>
   extract_message_content
     \<lparr>msg_role = ascii ''assistant'', msg_content = Attr [image_part], msg_created_at = 5\<rparr> = Inr None \<and>
   extract_message_content
     \<lparr>msg_role = ascii ''assistant'',
      msg_content = Attr [image_part, text_part (ascii ''Hi''), text_part (ascii ''there'')],
      msg_created_at = 5\<rparr> = Inr (Some (ascii ''Hi'')) \<and>
   extract_message_content
     \<lparr>msg_role = ascii ''assistant'',
      msg_content = Attr [image_part, broken_text_part, text_part (ascii ''there'')],
      msg_created_at = 5\<rparr> = Inr None"
  using
    extract_message_content_spec [of
      "\<lparr>msg_role = ascii ''assistant'', msg_content = Attr [], msg_created_at = 5\<rparr>"]
    extract_message_content_spec [of
      "\<lparr>msg_role = ascii ''assistant'', msg_content = Attr [image_part], msg_created_at = 5\<rparr>"
      "[image_part]"]
    extract_message_content_spec [of
      "\<lparr>msg_role = ascii ''assistant'',
        msg_content = Attr [image_part, text_part (ascii ''Hi''), text_part (ascii ''there'')],
        msg_created_at = 5\<rparr>"
      "[]" "[image_part]" "text_part (ascii ''Hi'')" "[text_part (ascii ''there'')]"
      "\<lparr>text_value = Attr (Some (ascii ''Hi''))\<rparr>" "Some (ascii ''Hi'')"]
    extract_message_content_spec [of
      "\<lparr>msg_role = ascii ''assistant'',
        msg_content = Attr [image_part, broken_text_part, text_part (ascii ''there'')],
        msg_created_at = 5\<rparr>"
      "[]" "[image_part]" "broken_text_part" "[text_part (ascii ''there'')]"]
  by (simp add: image_part_def text_part_def broken_text_part_def has_text_value_def ascii_def)

section \<open>Properties of the startup validation\<close>

lemma validate_environment_eq:
  "validate_environment endpoint api_key agent_ident =
     (if truthy endpoint \<and> truthy api_key \<and> truthy agent_ident then Inr ()
      else Inl (ValueError
          (ascii ''Missing required environment variables. Please ensure you have set:\<newline>'' @
           ascii ''- AZURE_AI_FOUNDRY_ENDPOINT\<newline>'' @
           ascii ''- AZURE_AI_FOUNDRY_API_KEY\<newline>'' @
           ascii ''- AZURE_AI_FOUNDRY_AGENT_ID'')))"
  by (simp add: validate_environment_def)

lemma config_names:
  fixes msg :: pystr
  assumes "msg = ascii ''Missing required environment variables. Please ensure you have set:\<newline>'' @
           ascii ''- AZURE_AI_FOUNDRY_ENDPOINT\<newline>'' @
           ascii ''- AZURE_AI_FOUNDRY_API_KEY\<newline>'' @
           ascii ''- AZURE_AI_FOUNDRY_AGENT_ID''"
  shows "sublist (ascii ''AZURE_AI_FOUNDRY_ENDPOINT'') msg"
    and "sublist (ascii ''AZURE_AI_FOUNDRY_API_KEY'') msg"
    and "sublist (ascii ''AZURE_AI_FOUNDRY_AGENT_ID'') msg"
proof -
  have "msg = ascii ''Missing required environment variables. Please ensure you have set:\<newline>- '' @
     ascii ''AZURE_AI_FOUNDRY_ENDPOINT'' @
     ascii ''\<newline>- AZURE_AI_FOUNDRY_API_KEY\<newline>- AZURE_AI_FOUNDRY_AGENT_ID''"
    by (simp add: assms ascii_def)
  then show "sublist (ascii ''AZURE_AI_FOUNDRY_ENDPOINT'') msg" by (rule sublist_eqI)
  have "msg = ascii ''Missing required environment variables. Please ensure you have set:\<newline>- AZURE_AI_FOUNDRY_ENDPOINT\<newline>- '' @
     ascii ''AZURE_AI_FOUNDRY_API_KEY'' @
     ascii ''\<newline>- AZURE_AI_FOUNDRY_AGENT_ID''"
    by (simp add: assms ascii_def)
  then show "sublist (ascii ''AZURE_AI_FOUNDRY_API_KEY'') msg" by (rule sublist_eqI)
  have "msg = ascii ''Missing required environment variables. Please ensure you have set:\<newline>- AZURE_AI_FOUNDRY_ENDPOINT\<newline>- AZURE_AI_FOUNDRY_API_KEY\<newline>- '' @
     ascii ''AZURE_AI_FOUNDRY_AGENT_ID'' @ []"
    by (simp add: assms ascii_def)
  then show "sublist (ascii ''AZURE_AI_FOUNDRY_AGENT_ID'') msg" by (rule sublist_eqI)
qed

text \<open>
  Claim C9, as amended. When any of the three required values is missing (\<^verbatim>\<open>None\<close> or
  empty), the validation raises a \<^verbatim>\<open>ValueError\<close>, and otherwise it raises nothing. The
  message is one fixed text for every input: it names all three variables, whichever of
  them are missing.
\<close>

theorem validate_environment_fixed_message:
  "\<exists>msg.
     (\<forall>endpoint api_key agent_ident.
        validate_environment endpoint api_key agent_ident =
          (if truthy endpoint \<and> truthy api_key \<and> truthy agent_ident then Inr ()
           else Inl (ValueError msg))) \<and>
     sublist (ascii ''AZURE_AI_FOUNDRY_ENDPOINT'') msg \<and>
     sublist (ascii ''AZURE_AI_FOUNDRY_API_KEY'') msg \<and>
     sublist (ascii ''AZURE_AI_FOUNDRY_AGENT_ID'') msg"
  using validate_environment_eq config_names [OF refl]
  by blast

text \<open>
  The claim as stated fails when only the API key is missing: the endpoint is set, and
  the message names it all the same.
\<close>

theorem validate_environment_names_set_variable:
  "truthy (Some (ascii ''https://example.test'')) \<and>
   (\<exists>msg. validate_environment (Some (ascii ''https://example.test'')) None (Some (ascii ''agent-1''))
       = Inl (ValueError msg) \<and>
     sublist (ascii ''AZURE_AI_FOUNDRY_ENDPOINT'') msg)"
proof -
  have "truthy (Some (ascii ''https://example.test''))"
    by (simp add: truthy_def ascii_def)
  moreover have "\<not> truthy None" by (simp add: truthy_def)
  ultimately show ?thesis
    using validate_environment_eq [of "Some (ascii ''https://example.test'')" None "Some (ascii ''agent-1'')"]
      config_names(1) [OF refl]
    by (simp only: simp_thms if_False) blast
qed

section \<open>Properties of float subtraction\<close>

lemma round_half_even_of_int: "round_half_even (of_int z) = z"
  by (simp add: round_half_even_def)

lemma binary64_round_with_exponent:
  assumes "x \<noteq> 0" and "max (\<lfloor>log 2 \<bar>x\<bar>\<rfloor> - 52) (- 1074) = - int m"
  shows "binary64_round x = of_int (round_half_even (x * 2 ^ m)) / 2 ^ m"
proof -
  have "(2::real) powr of_int (- int m) = inverse (2 ^ m)"
    by (simp add: powr_minus powr_realpow)
  then show ?thesis using assms
    by (simp add: binary64_round_def Let_def divide_inverse)
qed

text \<open>Integers below \<open>2 ^ 53\<close> in magnitude are binary64 numbers: rounding keeps them.\<close>

lemma binary64_round_of_int:
  assumes "\<bar>n\<bar> < 2 ^ 53"
  shows "binary64_round (of_int n) = of_int n"
proof (cases "n = 0")
  case True
  then show ?thesis by (simp add: binary64_round_def)
next
  case False
  then have pos: "0 < \<bar>real_of_int n\<bar>" by simp
  have "\<bar>real_of_int n\<bar> < 2 powr 53"
    using assms by (simp add: powr_realpow [of 2 53, simplified] flip: of_int_abs)
  then have "log 2 \<bar>real_of_int n\<bar> < 53"
    using pos by (simp add: log_less_iff)
  then have "\<lfloor>log 2 \<bar>real_of_int n\<bar>\<rfloor> \<le> 52" by linarith
  then have "max (\<lfloor>log 2 \<bar>real_of_int n\<bar>\<rfloor> - 52) (- 1074) \<le> 0" by simp
  then obtain m where m: "max (\<lfloor>log 2 \<bar>real_of_int n\<bar>\<rfloor> - 52) (- 1074) = - int m"
    by (metis nonpos_int_cases)
  have "real_of_int n * 2 ^ m = of_int (n * 2 ^ m)" by simp
  then have "round_half_even (real_of_int n * 2 ^ m) = n * 2 ^ m"
    by (simp only: round_half_even_of_int)
  with False show ?thesis
    by (simp add: binary64_round_with_exponent [OF _ m])
qed

lemma float_sub_of_nat:
  assumes "a < 2 ^ 53" and "b < 2 ^ 53"
  shows "float_sub (of_nat a) (of_nat b) = of_int (int a - int b)"
proof -
  from assms have "\<bar>int a - int b\<bar> < 2 ^ 53" by (simp add: abs_if)
  then have "binary64_round (of_int (int a - int b)) = of_int (int a - int b)"
    by (rule binary64_round_of_int)
  then show ?thesis by (simp add: float_sub_def)
qed

text \<open>
  Rounding shows at the floats nearest to 0.1 and 60.1: their exact difference is
  \<open>60 + 51 / 2 ^ 55\<close>, and the float difference is 60, which does not exceed a limit
  of 60.
\<close>

lemma float_sub_rounds:
  "float_sub (8458323050155213 / 2 ^ 47) (3602879701896397 / 2 ^ 55) = 60"
proof -
  let ?x = "8458323050155213 / 2 ^ 47 - 3602879701896397 / 2 ^ 55 :: real"
  have x: "?x = 60 + 51 / 2 ^ 55" by simp
  have "\<lfloor>log 2 \<bar>?x\<bar>\<rfloor> = 5"
    unfolding x
    by (subst floor_log_eq_powr_iff)
      (simp_all add: powr_realpow [of 2 5, simplified] powr_realpow [of 2 6, simplified])
  then have e: "max (\<lfloor>log 2 \<bar>?x\<bar>\<rfloor> - 52) (- 1074) = - int 47" by simp
  have nz: "?x \<noteq> 0" unfolding x by simp
  have fl: "\<lfloor>?x * 2 ^ 47\<rfloor> = 60 * 2 ^ 47"
    unfolding x by (simp add: floor_eq_iff)
  have "round_half_even (?x * 2 ^ 47) = 60 * 2 ^ 47"
    unfolding round_half_even_def fl Let_def x by simp
  then have "binary64_round ?x = 60"
    by (simp only: binary64_round_with_exponent [OF nz e]) simp
  then show ?thesis by (simp only: float_sub_def)
qed

section \<open>Properties of the poll loop\<close>

lemma poll_loop_remote_error:
  "runs_get w k = Inl e \<Longrightarrow>
     poll_loop w tid rid mw st k tr = Some (tr @ [RunsGet tid rid], Inl e)"
  by (subst poll_loop.simps) simp

lemma poll_loop_terminal:
  "runs_get w k = Inr r \<Longrightarrow> run_status r \<in> set terminal_statuses \<Longrightarrow>
     poll_loop w tid rid mw st k tr = Some (tr @ [RunsGet tid rid], Inr r)"
  by (subst poll_loop.simps) simp

lemma poll_loop_expired:
  "runs_get w k = Inr r \<Longrightarrow> run_status r \<notin> set terminal_statuses \<Longrightarrow>
   float_sub (time_time w (Suc k)) st > of_int mw \<Longrightarrow>
     poll_loop w tid rid mw st k tr =
       Some (tr @ [RunsGet tid rid, RunsCancel tid rid], Inl (timeout_error mw))"
  by (subst poll_loop.simps) (simp split: sum.splits)

lemma poll_loop_again:
  "runs_get w k = Inr r \<Longrightarrow> run_status r \<notin> set terminal_statuses \<Longrightarrow>
   \<not> float_sub (time_time w (Suc k)) st > of_int mw \<Longrightarrow>
     poll_loop w tid rid mw st k tr =
       poll_loop w tid rid mw st (Suc k) (tr @ [RunsGet tid rid, Sleep 1])"
  by (subst poll_loop.simps) simp

lemma poll_loop_returns_terminal_aux:
  "poll_loop w tid rid mw st k tr = Some y \<Longrightarrow>
     (\<forall>r. snd y = Inr r \<longrightarrow> run_status r \<in> set terminal_statuses)"
  by (erule poll_loop.raw_induct [rotated])
    (auto simp: Let_def split: sum.splits if_splits)

lemma poll_loop_returns_terminal:
  "poll_loop w tid rid mw st k tr = Some (tr', Inr r) \<Longrightarrow> run_status r \<in> set terminal_statuses"
  using poll_loop_returns_terminal_aux [of w tid rid mw st k tr "(tr', Inr r)"] by simp

lemma still_running_run:
  "still_running w k \<Longrightarrow> \<exists>r. runs_get w k = Inr r \<and> run_status r \<notin> set terminal_statuses"
  by (simp add: still_running_def split: sum.splits)

text \<open>
  While the run is still running and the test of line 222 fails, the loop goes round:
  \<open>d\<close> rounds from poll \<open>k\<close> add \<open>d\<close> polls and sleeps to the events.
\<close>

lemma poll_loop_rounds:
  assumes "\<forall>i<d. still_running w (k + i) \<and>
      \<not> float_sub (time_time w (Suc (k + i))) st > of_int mw"
  shows "poll_loop w tid rid mw st k tr =
     poll_loop w tid rid mw st (k + d) (tr @ concat (replicate d [RunsGet tid rid, Sleep 1]))"
  using assms
proof (induction d arbitrary: k tr)
  case 0
  then show ?case by simp
next
  case (Suc d)
  from Suc.prems have "still_running w (k + 0)"
    and nt: "\<not> float_sub (time_time w (Suc (k + 0))) st > of_int mw"
    by blast+
  then obtain r where r: "runs_get w k = Inr r" "run_status r \<notin> set terminal_statuses"
    using still_running_run by fastforce
  have step: "poll_loop w tid rid mw st k tr =
      poll_loop w tid rid mw st (Suc k) (tr @ [RunsGet tid rid, Sleep 1])"
    using r nt by (simp add: poll_loop_again)
  have "\<forall>i<d. still_running w (Suc k + i) \<and>
      \<not> float_sub (time_time w (Suc (Suc k + i))) st > of_int mw"
  proof (intro allI impI)
    fix i assume "i < d"
    then have "Suc i < Suc d" by simp
    with Suc.prems have "still_running w (k + Suc i) \<and>
      \<not> float_sub (time_time w (Suc (k + Suc i))) st > of_int mw" by blast
    then show "still_running w (Suc k + i) \<and>
      \<not> float_sub (time_time w (Suc (Suc k + i))) st > of_int mw" by simp
  qed
  from Suc.IH [OF this, of "tr @ [RunsGet tid rid, Sleep 1]"] step
  show ?case by simp
qed

lemma poll_events_eq:
  "poll_events tid rid j = concat (replicate j [RunsGet tid rid, Sleep 1]) @ [RunsGet tid rid]"
  by (induction j) simp_all


text \<open>The loop started at the first poll, stopped at poll \<open>j\<close> by a terminal status.\<close>

lemma wait_returns_at:
  assumes "\<forall>i<j. still_running w i \<and> \<not> past_limit w mw i"
    and "runs_get w j = Inr r" and "run_status r \<in> set terminal_statuses"
  shows "wait_for_run_completion w tid rid mw = Some (poll_events tid rid j, Inr r)"
proof -
  have "\<forall>i<j. still_running w (0 + i) \<and>
      \<not> float_sub (time_time w (Suc (0 + i))) (time_time w 0) > of_int mw"
    using assms(1) by (simp add: past_limit_def)
  from poll_loop_rounds [OF this, of tid rid "[]"]
  show ?thesis
    using assms(2,3)
    by (simp add: wait_for_run_completion_def poll_loop_terminal poll_events_eq)
qed

text \<open>The loop started at the first poll, stopped after poll \<open>j\<close> by the clock.\<close>

lemma wait_times_out_at:
  assumes "\<forall>i<j. still_running w i \<and> \<not> past_limit w mw i"
    and "still_running w j" and "past_limit w mw j"
  shows "wait_for_run_completion w tid rid mw =
     Some (poll_events tid rid j @ [RunsCancel tid rid], Inl (timeout_error mw))"
proof -
  obtain r where r: "runs_get w j = Inr r" "run_status r \<notin> set terminal_statuses"
    using still_running_run [OF assms(2)] by blast
  have past: "float_sub (time_time w (Suc j)) (time_time w 0) > of_int mw"
    using assms(3) by (simp add: past_limit_def)
  have "\<forall>i<j. still_running w (0 + i) \<and>
      \<not> float_sub (time_time w (Suc (0 + i))) (time_time w 0) > of_int mw"
    using assms(1) by (simp add: past_limit_def)
  from poll_loop_rounds [OF this, of tid rid "[]"]
  show ?thesis
    using r past
    by (simp add: wait_for_run_completion_def poll_loop_expired poll_events_eq)
qed

text \<open>While the run is still running and the clock never passes the limit, the loop does not return.\<close>

lemma poll_loop_never_aux:
  "poll_loop w tid rid mw st k tr = Some y \<Longrightarrow>
     \<not> (\<forall>i. still_running w i \<and> \<not> float_sub (time_time w (Suc i)) st > of_int mw)"
  apply (erule poll_loop.raw_induct [rotated])
  apply (rule notI)
  subgoal premises prems for f w tid rid mw st k tr y
  proof -
    from prems(3) have c: "still_running w k"
      "\<not> float_sub (time_time w (Suc k)) st > of_int mw"
      by blast+
    then obtain r where "runs_get w k = Inr r" "run_status r \<notin> set terminal_statuses"
      using still_running_run by blast
    with prems(2) c(2)
    have "f w tid rid mw st (Suc k) (tr @ [RunsGet tid rid, Sleep 1]) = Some y"
      by (simp add: Let_def)
    from prems(1) [OF this] prems(3) show False by blast
  qed
  done

lemma wait_never_returns:
  assumes "\<forall>i. still_running w i \<and> \<not> past_limit w mw i"
  shows "wait_for_run_completion w tid rid mw = None"
proof (cases "wait_for_run_completion w tid rid mw")
  case None
  then show ?thesis .
next
  case (Some y)
  then have "poll_loop w tid rid mw (time_time w 0) 0 [] = Some y"
    by (simp add: wait_for_run_completion_def)
  from poll_loop_never_aux [OF this] assms show ?thesis
    by (simp add: past_limit_def)
qed

lemma in_progress_not_terminal: "ascii ''in_progress'' \<notin> set terminal_statuses"
  by (simp add: terminal_statuses_def ascii_def)

lemma example_remote_sel:
  "messages_create (example_remote polls p msgs) = Inr ()"
  "runs_create (example_remote polls p msgs) = Inr (run_with_status (ascii ''queued''))"
  "agent_id (example_remote polls p msgs) = ascii ''agent-1''"
  "get_last_message_text_by_role (example_remote polls p msgs) = p"
  "messages_list (example_remote polls p msgs) = Inr msgs"
  "runs_get (example_remote polls p msgs) k = Inr (polls k)"
  "time_time (example_remote polls p msgs) k = of_nat k"
  by (simp_all add: example_remote_def)

text \<open>In the example world the clock reading after poll \<open>k\<close> is \<open>k + 1\<close> seconds past the start.\<close>

lemma example_past_limit:
  assumes "k < 2 ^ 52"
  shows "past_limit (example_remote polls p msgs) mw k \<longleftrightarrow> mw < int (Suc k)"
proof -
  from assms have "Suc k < 2 ^ 53" by simp
  then have "float_sub (of_nat (Suc k)) (of_nat 0) = of_int (int (Suc k) - int 0)"
    by (intro float_sub_of_nat) simp_all
  then have e: "float_sub (of_nat (Suc k)) (of_nat 0) = of_int (int (Suc k))"
    by simp
  show ?thesis
    by (simp only: past_limit_def example_remote_sel e of_int_less_iff)
qed

lemma example_still_running:
  "still_running (example_remote polls p msgs) k \<longleftrightarrow>
     run_status (polls k) \<notin> set terminal_statuses"
  by (simp add: still_running_def example_remote_sel)

lemma always_in_progress_running:
  "still_running (example_remote (always_status (ascii ''in_progress'')) p msgs) k"
  by (simp add: example_still_running always_status_def run_with_status_def
      in_progress_not_terminal)

text \<open>
  Claim C2, as amended. For every sequence of polled run statuses (every poll answers
  with a run), provided the clock advances so that after some poll \<open>n\<close> the test
  \<^verbatim>\<open>time.time() - start_time > max_wait_time\<close> holds, \<^verbatim>\<open>wait_for_run_completion\<close>
  terminates. It stops at the first poll \<open>j\<close> that finds a terminal status or after which
  the test holds, whichever comes first, so \<open>j\<close> is at most \<open>n\<close>: at a terminal status it
  returns that run, after \<open>j + 1\<close> polls; otherwise the test holds there, and it calls
  \<^verbatim>\<open>runs.cancel\<close> and raises the timeout error. It never raises the timeout error while
  the test fails.
\<close>

theorem wait_for_run_completion_terminates:
  assumes "\<forall>k. \<exists>r. runs_get w k = Inr r"
    and "past_limit w max_wait_time n"
  shows "\<exists>j r. j \<le> n \<and> runs_get w j = Inr r \<and>
           (\<forall>i<j. still_running w i \<and> \<not> past_limit w max_wait_time i) \<and>
           (if run_status r \<in> set terminal_statuses then
              wait_for_run_completion w thread_id rid max_wait_time =
                Some (poll_events thread_id rid j, Inr r)
            else
              past_limit w max_wait_time j \<and>
              wait_for_run_completion w thread_id rid max_wait_time =
                Some (poll_events thread_id rid j @ [RunsCancel thread_id rid],
                  Inl (timeout_error max_wait_time)))"
proof -
  define stop where "stop j \<longleftrightarrow> \<not> still_running w j \<or> past_limit w max_wait_time j" for j
  define j where "j = (LEAST j. stop j)"
  have "stop n" using assms(2) by (simp add: stop_def)
  then have sj: "stop j" and le: "j \<le> n"
    unfolding j_def by (rule LeastI, rule Least_le)
  have before: "\<forall>i<j. still_running w i \<and> \<not> past_limit w max_wait_time i"
  proof (intro allI impI)
    fix i assume "i < j"
    then have "\<not> stop i" unfolding j_def by (rule not_less_Least)
    then show "still_running w i \<and> \<not> past_limit w max_wait_time i"
      by (simp add: stop_def)
  qed
  obtain r where r: "runs_get w j = Inr r" using assms(1) by blast
  show ?thesis
  proof (cases "run_status r \<in> set terminal_statuses")
    case True
    with wait_returns_at [OF before r True, of thread_id rid] le r before
    show ?thesis by auto
  next
    case False
    with r have run: "still_running w j" by (simp add: still_running_def)
    with sj have past: "past_limit w max_wait_time j" by (simp add: stop_def)
    from wait_times_out_at [OF before run past, of thread_id rid] le r before False past
    show ?thesis by auto
  qed
qed

theorem wait_for_run_completion_terminates_witness:
  "wait_for_run_completion (example_remote (always_status (ascii ''in_progress'')) (Inr None) [])
     (ascii ''t1'') (ascii ''r1'') 60 =
     Some (poll_events (ascii ''t1'') (ascii ''r1'') 60 @
       [RunsCancel (ascii ''t1'') (ascii ''r1'')], Inl (timeout_error 60))"
proof -
  let ?w = "example_remote (always_status (ascii ''in_progress'')) (Inr None) []"
  have polls: "\<forall>k. \<exists>r. runs_get ?w k = Inr r"
    by (simp add: example_remote_sel)
  have past: "past_limit ?w 60 60"
    by (simp add: example_past_limit)
  from wait_for_run_completion_terminates [OF polls past, of "ascii ''t1''" "ascii ''r1''"]
  obtain j r where j: "j \<le> 60" "runs_get ?w j = Inr r"
    and res: "if run_status r \<in> set terminal_statuses then
        wait_for_run_completion ?w (ascii ''t1'') (ascii ''r1'') 60 =
          Some (poll_events (ascii ''t1'') (ascii ''r1'') j, Inr r)
      else
        past_limit ?w 60 j \<and>
        wait_for_run_completion ?w (ascii ''t1'') (ascii ''r1'') 60 =
          Some (poll_events (ascii ''t1'') (ascii ''r1'') j @
            [RunsCancel (ascii ''t1'') (ascii ''r1'')], Inl (timeout_error 60))"
    by blast
  from j(2) have "run_status r \<notin> set terminal_statuses"
    by (auto simp: example_remote_sel always_status_def run_with_status_def
        in_progress_not_terminal)
  with res have past_j: "past_limit ?w 60 j"
    and out: "wait_for_run_completion ?w (ascii ''t1'') (ascii ''r1'') 60 =
          Some (poll_events (ascii ''t1'') (ascii ''r1'') j @
            [RunsCancel (ascii ''t1'') (ascii ''r1'')], Inl (timeout_error 60))"
    by simp_all
  from j(1) have "j < 2 ^ 52" by simp
  with past_j have "60 < int (Suc j)" by (simp add: example_past_limit)
  with j(1) have "j = 60" by simp
  with out show ?thesis by simp
qed

text \<open>
  The claim as stated fails when the clock does not advance: every poll answers with a
  run that is in progress, the test of line 222 never holds, and the loop never returns.
\<close>

theorem wait_for_run_completion_polls_forever:
  "(\<forall>k. \<exists>r. runs_get frozen_clock_remote k = Inr r) \<and>
   wait_for_run_completion frozen_clock_remote (ascii ''t1'') (ascii ''r1'') 60 = None"
proof -
  have g: "runs_get frozen_clock_remote k = Inr (run_with_status (ascii ''in_progress''))" for k
    by (simp add: frozen_clock_remote_def example_remote_def always_status_def)
  have t: "time_time frozen_clock_remote k = 0" for k
    by (simp add: frozen_clock_remote_def)
  have "float_sub 0 0 = 0" by (simp add: float_sub_def binary64_round_def)
  then have "\<forall>i. still_running frozen_clock_remote i \<and> \<not> past_limit frozen_clock_remote 60 i"
    by (simp add: still_running_def past_limit_def g t run_with_status_def
        in_progress_not_terminal)
  then have "wait_for_run_completion frozen_clock_remote (ascii ''t1'') (ascii ''r1'') 60 = None"
    by (rule wait_never_returns)
  with g show ?thesis by simp
qed



section \<open>Properties of the message handler\<close>

text \<open>
  Claim C10. When the session has no thread identifier (\<^verbatim>\<open>None\<close> or empty),
  \<^verbatim>\<open>handle_message\<close> sends the session-error notice and returns normally; the notice is
  its only event, so no message is appended to a thread, no run is created and no run is
  polled.
\<close>

theorem handle_message_no_thread:
  assumes "user_session (ascii ''thread_id'') = None \<or>
           user_session (ascii ''thread_id'') = Some []"
  shows "handle_message_body w user_session content = Some ([Send session_error_msg], Inr ()) \<and>
         handle_message w user_session content = Some [Send session_error_msg]"
  using assms by (auto simp: handle_message_def handle_message_body_def)

theorem handle_message_no_thread_witness:
  "handle_message (example_remote completes_at_third_poll (Inr None) []) Map.empty
     (ascii ''Hello'') = Some [Send session_error_msg] \<and>
   handle_message (example_remote completes_at_third_poll (Inr None) [])
     [ascii ''thread_id'' \<mapsto> []] (ascii ''Hello'') = Some [Send session_error_msg]"
  using
    handle_message_no_thread [of Map.empty
      "example_remote completes_at_third_poll (Inr None) []" "ascii ''Hello''"]
    handle_message_no_thread [of "[ascii ''thread_id'' \<mapsto> []]"
      "example_remote completes_at_third_poll (Inr None) []" "ascii ''Hello''"]
  by simp

lemma wait_returns_terminal:
  "wait_for_run_completion w tid rid mw = Some (tr, Inr r) \<Longrightarrow>
     run_status r \<in> set terminal_statuses"
  unfolding wait_for_run_completion_def by (rule poll_loop_returns_terminal)

lemma handle_message_body_after_run:
  assumes "user_session (ascii ''thread_id'') = Some tid" and "tid \<noteq> []"
    and "messages_create w = Inr u" and "runs_create w = Inr run0"
    and "wait_for_run_completion w tid (run_id run0) 60 = Some (tr, Inr r)"
  shows "handle_message_body w user_session content =
     (if run_status r = ascii ''completed'' then
        Some (on_completed w tid r
          ([MessagesCreate tid (ascii ''user'') content, RunsCreate tid (agent_id w)] @ tr))
      else if run_status r = ascii ''failed'' then
        Some ([MessagesCreate tid (ascii ''user'') content, RunsCreate tid (agent_id w)] @ tr @
          [Send (failed_msg (error_message_of r))], Inr ())
      else
        Some ([MessagesCreate tid (ascii ''user'') content, RunsCreate tid (agent_id w)] @ tr @
          [Send (status_msg (run_status r))], Inr ()))"
  using assms by (simp add: handle_message_body_def)

lemma handle_message_of_body:
  "handle_message_body w user_session content = Some (ev, Inr u) \<Longrightarrow>
     handle_message w user_session content = Some ev"
  by (simp add: handle_message_def)

lemma status_msg_carries: "sublist status (status_msg status)"
  unfolding status_msg_def
  by (rule sublist_eqI [where a = "ascii ''## '' @ [10067] @ ascii '' Unexpected Status\<newline>\<newline>'' @
     ascii ''**The agent run completed with status:** `''" and
     b = "ascii ''`\<newline>\<newline>'' @
     ascii ''This is unusual. Please try sending your message again.''"]) simp

lemma failed_msg_carries: "sublist error_message (failed_msg error_message)"
  unfolding failed_msg_def
  by (rule sublist_eqI [where a = "ascii ''## '' @ [10060] @ ascii '' Processing Failed\<newline>\<newline>'' @
     ascii ''**The agent encountered an error while processing your message:**\<newline>\<newline>'' @
     ascii ''```\<newline>''" and b = "ascii ''\<newline>```\<newline>\<newline>'' @
     ascii ''Please try rephrasing your question or ask something else.''"]) simp

lemma terminal_cases:
  "s \<in> set terminal_statuses \<Longrightarrow>
     s = ascii ''completed'' \<or> s = ascii ''failed'' \<or> s = ascii ''cancelled'' \<or> s = ascii ''expired''"
  by (simp add: terminal_statuses_def)

lemma error_message_unknown:
  "run_last_error r = Missing \<or> run_last_error r = Attr None \<or>
   (\<exists>d. run_last_error r = Attr (Some d) \<and> map_of d (ascii ''message'') = None) \<Longrightarrow>
     error_message_of r = ascii ''Unknown error''"
  by (auto simp: error_message_of_def)

lemma error_message_present:
  "run_last_error r = Attr (Some d) \<Longrightarrow> map_of d (ascii ''message'') = Some m \<Longrightarrow>
     error_message_of r = m"
  by (auto simp: error_message_of_def)

lemma wait_always_terminal:
  "run_status (polls 0) \<in> set terminal_statuses \<Longrightarrow>
     wait_for_run_completion (example_remote polls p msgs) tid rid mw =
       Some ([RunsGet tid rid], Inr (polls 0))"
  by (simp add: wait_for_run_completion_def poll_loop_terminal example_remote_def)

lemma third_poll_before:
  "\<forall>i<2. still_running (example_remote completes_at_third_poll p msgs) i \<and>
     \<not> past_limit (example_remote completes_at_third_poll p msgs) 60 i"
proof -
  let ?w = "example_remote completes_at_third_poll p msgs"
  have s0: "run_status (completes_at_third_poll 0) \<notin> set terminal_statuses"
    by (simp add: completes_at_third_poll_def run_with_status_def terminal_statuses_def ascii_def)
  have s1: "run_status (completes_at_third_poll (Suc 0)) \<notin> set terminal_statuses"
    by (simp add: completes_at_third_poll_def run_with_status_def terminal_statuses_def ascii_def)
  have p0: "\<not> past_limit ?w 60 0"
    by (subst example_past_limit) simp_all
  have p1: "\<not> past_limit ?w 60 (Suc 0)"
    by (subst example_past_limit) simp_all
  show ?thesis
    using s0 s1 p0 p1 by (simp add: less_Suc_eq numeral_2_eq_2 example_still_running)
qed

lemma third_poll_completed:
  "runs_get (example_remote completes_at_third_poll p msgs) 2 =
     Inr (run_with_status (ascii ''completed''))"
  by (simp add: example_remote_sel completes_at_third_poll_def)

lemma example_session_thread: "example_session (ascii ''thread_id'') = Some (ascii ''t1'')"
  by (simp add: example_session_def)

lemma t1_nonempty: "ascii ''t1'' \<noteq> []"
  by (simp add: ascii_def)

lemma run_id_queued: "run_id (run_with_status s) = ascii ''r1''"
  by (simp add: run_with_status_def)

text \<open>
  Claim C6. When the poll loop returns a run with status \<^verbatim>\<open>failed\<close>, the handler sends
  the processing-failed message and ends normally (no exception reaches the handler's
  \<^verbatim>\<open>except\<close>). The message contains the error message of the run, which is literally
  \<^verbatim>\<open>Unknown error\<close> when \<^verbatim>\<open>last_error\<close> is missing, is \<^verbatim>\<open>None\<close> or has no \<^verbatim>\<open>message\<close>, and is
  \<^verbatim>\<open>last_error.message\<close> when that is present.
\<close>

theorem handle_message_failed:
  assumes "user_session (ascii ''thread_id'') = Some tid" and "tid \<noteq> []"
    and "messages_create w = Inr u" and "runs_create w = Inr run0"
    and "wait_for_run_completion w tid (run_id run0) 60 = Some (tr, Inr r)"
    and "run_status r = ascii ''failed''"
  shows "handle_message_body w user_session content =
           Some ([MessagesCreate tid (ascii ''user'') content, RunsCreate tid (agent_id w)] @ tr @
             [Send (failed_msg (error_message_of r))], Inr ()) \<and>
         handle_message w user_session content =
           Some ([MessagesCreate tid (ascii ''user'') content, RunsCreate tid (agent_id w)] @ tr @
             [Send (failed_msg (error_message_of r))]) \<and>
         sublist (error_message_of r) (failed_msg (error_message_of r)) \<and>
         (run_last_error r = Missing \<or> run_last_error r = Attr None \<or>
          (\<exists>d. run_last_error r = Attr (Some d) \<and> map_of d (ascii ''message'') = None) \<longrightarrow>
            error_message_of r = ascii ''Unknown error'') \<and>
         (\<forall>d m. run_last_error r = Attr (Some d) \<and> map_of d (ascii ''message'') = Some m \<longrightarrow>
            error_message_of r = m)"
proof -
  have ne: "ascii ''failed'' \<noteq> ascii ''completed''" by (simp add: ascii_def)
  have body: "handle_message_body w user_session content =
           Some ([MessagesCreate tid (ascii ''user'') content, RunsCreate tid (agent_id w)] @ tr @
             [Send (failed_msg (error_message_of r))], Inr ())"
    using handle_message_body_after_run [of user_session tid w u run0 tr r content] assms ne
    by simp
  from body have "handle_message w user_session content =
           Some ([MessagesCreate tid (ascii ''user'') content, RunsCreate tid (agent_id w)] @ tr @
             [Send (failed_msg (error_message_of r))])"
    by (rule handle_message_of_body)
  with body show ?thesis
    using failed_msg_carries error_message_unknown [of r] error_message_present [of r]
    by blast
qed

theorem handle_message_failed_witness:
  "handle_message (example_remote (always_status (ascii ''failed'')) (Inr None) [])
     example_session (ascii ''Hello'') =
     Some [MessagesCreate (ascii ''t1'') (ascii ''user'') (ascii ''Hello''),
       RunsCreate (ascii ''t1'') (ascii ''agent-1''),
       RunsGet (ascii ''t1'') (ascii ''r1''),
       Send (failed_msg (ascii ''Unknown error''))] \<and>
   handle_message (example_remote (\<lambda>k. rate_limited_run) (Inr None) [])
     example_session (ascii ''Hello'') =
     Some [MessagesCreate (ascii ''t1'') (ascii ''user'') (ascii ''Hello''),
       RunsCreate (ascii ''t1'') (ascii ''agent-1''),
       RunsGet (ascii ''t1'') (ascii ''r1''),
       Send (failed_msg (ascii ''Rate limit is exceeded.''))]"
proof -
  let ?w1 = "example_remote (always_status (ascii ''failed'')) (Inr None) []"
  let ?w2 = "example_remote (\<lambda>k. rate_limited_run) (Inr None) []"
  have f1: "run_status (always_status (ascii ''failed'') 0) = ascii ''failed''"
    by (simp add: always_status_def run_with_status_def)
  have f2: "run_status rate_limited_run = ascii ''failed''"
    by (simp add: rate_limited_run_def)
  have ft: "ascii ''failed'' \<in> set terminal_statuses"
    by (simp add: terminal_statuses_def)
  have w1: "wait_for_run_completion ?w1 (ascii ''t1'')
      (run_id (run_with_status (ascii ''queued''))) 60 =
      Some ([RunsGet (ascii ''t1'') (ascii ''r1'')], Inr (always_status (ascii ''failed'') 0))"
    by (simp add: wait_always_terminal f1 ft run_id_queued)
  have w2: "wait_for_run_completion ?w2 (ascii ''t1'')
      (run_id (run_with_status (ascii ''queued''))) 60 =
      Some ([RunsGet (ascii ''t1'') (ascii ''r1'')], Inr rate_limited_run)"
    by (simp add: wait_always_terminal f2 ft run_id_queued)
  have m1: "run_last_error (always_status (ascii ''failed'') 0) = Missing"
    by (simp add: always_status_def run_with_status_def)
  have m2: "run_last_error rate_limited_run =
      Attr (Some [(ascii ''code'', ascii ''rate_limit_exceeded''),
        (ascii ''message'', ascii ''Rate limit is exceeded.'')])"
    by (simp add: rate_limited_run_def)
  have m3: "map_of [(ascii ''code'', ascii ''rate_limit_exceeded''),
        (ascii ''message'', ascii ''Rate limit is exceeded.'')] (ascii ''message'') =
      Some (ascii ''Rate limit is exceeded.'')"
    by (simp add: ascii_def)
  from handle_message_failed [of example_session "ascii ''t1''" ?w1 "()"
      "run_with_status (ascii ''queued'')" "[RunsGet (ascii ''t1'') (ascii ''r1'')]"
      "always_status (ascii ''failed'') 0" "ascii ''Hello''",
      OF example_session_thread t1_nonempty example_remote_sel(1) example_remote_sel(2) w1 f1]
    handle_message_failed [of example_session "ascii ''t1''" ?w2 "()"
      "run_with_status (ascii ''queued'')" "[RunsGet (ascii ''t1'') (ascii ''r1'')]"
      rate_limited_run "ascii ''Hello''",
      OF example_session_thread t1_nonempty example_remote_sel(1) example_remote_sel(2) w2 f2]
  show ?thesis
    using m1 m2 m3 by (simp add: example_remote_sel)
qed

text \<open>
  Claim C7. When the poll loop returns a run whose status is neither \<^verbatim>\<open>completed\<close> nor
  \<^verbatim>\<open>failed\<close>, the handler sends the unexpected-status message, which contains the status
  string of the run, and ends normally. The poll loop returns terminal statuses only, so
  the status is \<^verbatim>\<open>cancelled\<close> or \<^verbatim>\<open>expired\<close>.
\<close>

theorem handle_message_unexpected_status:
  assumes "user_session (ascii ''thread_id'') = Some tid" and "tid \<noteq> []"
    and "messages_create w = Inr u" and "runs_create w = Inr run0"
    and "wait_for_run_completion w tid (run_id run0) 60 = Some (tr, Inr r)"
    and "run_status r \<noteq> ascii ''completed''" and "run_status r \<noteq> ascii ''failed''"
  shows "handle_message_body w user_session content =
           Some ([MessagesCreate tid (ascii ''user'') content, RunsCreate tid (agent_id w)] @ tr @
             [Send (status_msg (run_status r))], Inr ()) \<and>
         handle_message w user_session content =
           Some ([MessagesCreate tid (ascii ''user'') content, RunsCreate tid (agent_id w)] @ tr @
             [Send (status_msg (run_status r))]) \<and>
         sublist (run_status r) (status_msg (run_status r)) \<and>
         (run_status r = ascii ''cancelled'' \<or> run_status r = ascii ''expired'')"
proof -
  have body: "handle_message_body w user_session content =
           Some ([MessagesCreate tid (ascii ''user'') content, RunsCreate tid (agent_id w)] @ tr @
             [Send (status_msg (run_status r))], Inr ())"
    using handle_message_body_after_run [of user_session tid w u run0 tr r content] assms
    by simp
  from body have "handle_message w user_session content =
           Some ([MessagesCreate tid (ascii ''user'') content, RunsCreate tid (agent_id w)] @ tr @
             [Send (status_msg (run_status r))])"
    by (rule handle_message_of_body)
  moreover have "run_status r = ascii ''cancelled'' \<or> run_status r = ascii ''expired''"
    using terminal_cases [OF wait_returns_terminal [OF assms(5)]] assms(6,7) by blast
  ultimately show ?thesis using body status_msg_carries by blast
qed


theorem handle_message_unexpected_status_witness:
  "handle_message (example_remote (always_status (ascii ''cancelled'')) (Inr None) [])
     example_session (ascii ''Hello'') =
     Some [MessagesCreate (ascii ''t1'') (ascii ''user'') (ascii ''Hello''),
       RunsCreate (ascii ''t1'') (ascii ''agent-1''),
       RunsGet (ascii ''t1'') (ascii ''r1''),
       Send (status_msg (ascii ''cancelled''))]"
proof -
  let ?w = "example_remote (always_status (ascii ''cancelled'')) (Inr None) []"
  have f: "run_status (always_status (ascii ''cancelled'') 0) = ascii ''cancelled''"
    by (simp add: always_status_def run_with_status_def)
  have ft: "ascii ''cancelled'' \<in> set terminal_statuses"
    by (simp add: terminal_statuses_def)
  have n1: "run_status (always_status (ascii ''cancelled'') 0) \<noteq> ascii ''completed''"
    by (simp add: f) (simp add: ascii_def)
  have n2: "run_status (always_status (ascii ''cancelled'') 0) \<noteq> ascii ''failed''"
    by (simp add: f) (simp add: ascii_def)
  have w: "wait_for_run_completion ?w (ascii ''t1'')
      (run_id (run_with_status (ascii ''queued''))) 60 =
      Some ([RunsGet (ascii ''t1'') (ascii ''r1'')], Inr (always_status (ascii ''cancelled'') 0))"
    by (simp add: wait_always_terminal f ft run_id_queued)
  from handle_message_unexpected_status [of example_session "ascii ''t1''" ?w "()"
      "run_with_status (ascii ''queued'')" "[RunsGet (ascii ''t1'') (ascii ''r1'')]"
      "always_status (ascii ''cancelled'') 0" "ascii ''Hello''",
      OF example_session_thread t1_nonempty example_remote_sel(1) example_remote_sel(2) w n1 n2]
  show ?thesis by (simp add: example_remote_sel f)
qed

lemma fallback_scan_find:
  "fallback_scan r msgs =
     Inr (case find (qualifies r) msgs of None \<Rightarrow> None | Some m \<Rightarrow> extracted_text m)"
proof (induction msgs)
  case Nil
  then show ?case by simp
next
  case (Cons msg rest)
  obtain v where v: "extract_message_content msg = Inr v"
    using extract_total by blast
  then show ?case
    using Cons by (simp add: qualifies_def extracted_text_def)
qed

lemma find_qualifies_truthy:
  "find (qualifies r) msgs = Some m \<Longrightarrow> \<exists>s. extracted_text m = Some s"
  by (auto simp: find_Some_iff qualifies_def truthy_def split: option.splits)

lemma fallback_eq:
  assumes "messages_list w = Inr msgs"
  shows "fallback w tid r tr =
     (tr @ [MessagesList tid,
        Send (case find (qualifies r) msgs of
                None \<Rightarrow> no_response_msg
              | Some m \<Rightarrow> format_agent_response (extracted_text m))], Inr ())"
proof (cases "find (qualifies r) msgs")
  case None
  then show ?thesis using assms by (simp add: fallback_def fallback_scan_find)
next
  case (Some m)
  then obtain s where "extracted_text m = Some s" using find_qualifies_truthy by blast
  with Some show ?thesis using assms by (simp add: fallback_def fallback_scan_find)
qed

lemma on_completed_eq:
  "on_completed w tid r tr =
     (if truthy (primary_text w) then
        (tr @ [GetLastMessageText tid (ascii ''assistant''),
           Send (format_agent_response (primary_text w))], Inr ())
      else fallback w tid r (tr @ [GetLastMessageText tid (ascii ''assistant'')]))"
  by (simp add: on_completed_def primary_text_def truthy_def split: sum.splits)

lemma extract_image_only: "extract_message_content image_only_message = Inr None"
  by (simp add: extract_message_content_def image_only_message_def image_part_def
      has_text_value_def ascii_def)

lemma extract_hi: "extract_message_content hi_message = Inr (Some (ascii ''Hi''))"
  by (simp add: extract_message_content_def hi_message_def text_part_def
      has_text_value_def get_text_value_def)

lemma image_only_not_qualifies: "\<not> qualifies (run_with_status s) image_only_message"
  by (simp add: qualifies_def extracted_text_def extract_image_only truthy_def)

lemma hi_qualifies: "qualifies (run_with_status s) hi_message"
  by (simp add: qualifies_def extracted_text_def extract_hi truthy_def)
    (simp add: hi_message_def run_with_status_def ascii_def)

lemma extracted_hi: "extracted_text hi_message = Some (ascii ''Hi'')"
  by (simp add: extracted_text_def extract_hi)

lemma format_hi: "format_agent_response (Some (ascii ''Hi'')) = agent_heading @ ascii ''Hi''"
  by (simp add: format_agent_response_def strip_def startswith_def ascii_simps py_isspace_def)

lemma format_hi_there:
  "format_agent_response (Some (ascii ''Hi there'')) = agent_heading @ ascii ''Hi there''"
  by (simp add: format_agent_response_def strip_def startswith_def ascii_simps py_isspace_def)

lemma completed_terminal: "ascii ''completed'' \<in> set terminal_statuses"
  by (simp add: terminal_statuses_def)

lemma wait_always_completed:
  "wait_for_run_completion (example_remote (always_status (ascii ''completed'')) p msgs)
     (ascii ''t1'') (run_id (run_with_status (ascii ''queued''))) 60 =
     Some ([RunsGet (ascii ''t1'') (ascii ''r1'')], Inr (run_with_status (ascii ''completed'')))"
proof -
  have "run_status (always_status (ascii ''completed'') 0) \<in> set terminal_statuses"
    by (simp add: always_status_def run_with_status_def completed_terminal)
  then show ?thesis
    by (simp add: wait_always_terminal run_id_queued) (simp add: always_status_def)
qed

lemma run_status_with: "run_status (run_with_status s) = s"
  by (simp add: run_with_status_def)

lemma fallback_raises:
  "messages_list w = Inl e \<Longrightarrow> fallback w tid r tr = (tr @ [MessagesList tid], Inl e)"
  by (simp add: fallback_def)

lemma handle_message_of_body_raised:
  "handle_message_body w user_session content = Some (ev, Inl e) \<Longrightarrow>
     handle_message w user_session content = Some (ev @ [Send (processing_error_msg (exn_str e))])"
  by (simp add: handle_message_def)

lemma always_completed_first_poll:
  "runs_get (example_remote (always_status (ascii ''completed'')) p msgs) 0 =
     Inr (run_with_status (ascii ''completed''))"
  by (simp add: example_remote_sel always_status_def)

lemma listing_fails_sel:
  "messages_create listing_fails_remote = Inr ()"
  "runs_create listing_fails_remote = Inr (run_with_status (ascii ''queued''))"
  "agent_id listing_fails_remote = ascii ''agent-1''"
  "get_last_message_text_by_role listing_fails_remote = Inr None"
  "messages_list listing_fails_remote = Inl (RemoteError (ascii ''service unavailable''))"
  "runs_get listing_fails_remote 0 = Inr (run_with_status (ascii ''completed''))"
  by (simp_all add: listing_fails_remote_def example_remote_def always_status_def)

text \<open>
  Claim C1, as amended. For every sequence of polls that reaches the status
  \<^verbatim>\<open>completed\<close> within the timeout (the polls before poll \<open>j\<close> find the run still running
  and the test of line 222 failing, poll \<open>j\<close> finds it completed), the handler polls
  \<open>j + 1\<close> times and then: if the convenience call \<^verbatim>\<open>get_last_message_text_by_role\<close>
  succeeds with a non-empty text, it sends that text formatted and ends normally.
  Otherwise (the call raised, or its text is absent or empty) it lists the messages of
  the thread. If the listing succeeds, it sends the formatted extracted text of the first
  message that has the role \<^verbatim>\<open>assistant\<close>, was created no earlier than the run, and has a
  non-empty extracted text, or the no-response notice when no message does, and ends
  normally. If the listing raises, the exception reaches the handler's \<^verbatim>\<open>except\<close> and the
  processing-error notice with the text of the exception is sent.
\<close>

theorem handle_message_completed:
  assumes "user_session (ascii ''thread_id'') = Some tid" and "tid \<noteq> []"
    and "messages_create w = Inr u" and "runs_create w = Inr run0"
    and "\<forall>i<j. still_running w i \<and> \<not> past_limit w 60 i"
    and "runs_get w j = Inr r" and "run_status r = ascii ''completed''"
  shows
    "(truthy (primary_text w) \<longrightarrow>
        (let ev = [MessagesCreate tid (ascii ''user'') content, RunsCreate tid (agent_id w)] @
                  poll_events tid (run_id run0) j @
                  [GetLastMessageText tid (ascii ''assistant''),
                   Send (format_agent_response (primary_text w))]
         in handle_message_body w user_session content = Some (ev, Inr ()) \<and>
            handle_message w user_session content = Some ev)) \<and>
     (\<not> truthy (primary_text w) \<and> messages_list w = Inr msgs \<longrightarrow>
        (let ev = [MessagesCreate tid (ascii ''user'') content, RunsCreate tid (agent_id w)] @
                  poll_events tid (run_id run0) j @
                  [GetLastMessageText tid (ascii ''assistant''), MessagesList tid,
                   Send (case find (qualifies r) msgs of
                           None \<Rightarrow> no_response_msg
                         | Some m \<Rightarrow> format_agent_response (extracted_text m))]
         in handle_message_body w user_session content = Some (ev, Inr ()) \<and>
            handle_message w user_session content = Some ev)) \<and>
     (\<not> truthy (primary_text w) \<and> messages_list w = Inl e \<longrightarrow>
        (let ev = [MessagesCreate tid (ascii ''user'') content, RunsCreate tid (agent_id w)] @
                  poll_events tid (run_id run0) j @
                  [GetLastMessageText tid (ascii ''assistant''), MessagesList tid]
         in handle_message_body w user_session content = Some (ev, Inl e) \<and>
            handle_message w user_session content =
              Some (ev @ [Send (processing_error_msg (exn_str e))])))"
proof -
  have "run_status r \<in> set terminal_statuses"
    using assms(7) by (simp add: completed_terminal)
  then have wait: "wait_for_run_completion w tid (run_id run0) 60 =
      Some (poll_events tid (run_id run0) j, Inr r)"
    using assms(5,6) by (intro wait_returns_at) simp_all
  have body: "handle_message_body w user_session content =
      Some (on_completed w tid r
        ([MessagesCreate tid (ascii ''user'') content, RunsCreate tid (agent_id w)] @
          poll_events tid (run_id run0) j))"
    using handle_message_body_after_run
      [of user_session tid w u run0 "poll_events tid (run_id run0) j" r content]
      assms(1-4,7) wait
    by simp
  show ?thesis
  proof (intro conjI impI)
    assume "truthy (primary_text w)"
    then have "handle_message_body w user_session content =
        Some ([MessagesCreate tid (ascii ''user'') content, RunsCreate tid (agent_id w)] @
                  poll_events tid (run_id run0) j @
                  [GetLastMessageText tid (ascii ''assistant''),
                   Send (format_agent_response (primary_text w))], Inr ())"
      by (simp add: body on_completed_eq)
    then show "let ev = [MessagesCreate tid (ascii ''user'') content, RunsCreate tid (agent_id w)] @
                  poll_events tid (run_id run0) j @
                  [GetLastMessageText tid (ascii ''assistant''),
                   Send (format_agent_response (primary_text w))]
         in handle_message_body w user_session content = Some (ev, Inr ()) \<and>
            handle_message w user_session content = Some ev"
      using handle_message_of_body by (simp add: Let_def)
  next
    assume "\<not> truthy (primary_text w) \<and> messages_list w = Inr msgs"
    then have "handle_message_body w user_session content =
        Some ([MessagesCreate tid (ascii ''user'') content, RunsCreate tid (agent_id w)] @
                  poll_events tid (run_id run0) j @
                  [GetLastMessageText tid (ascii ''assistant''), MessagesList tid,
                   Send (case find (qualifies r) msgs of
                           None \<Rightarrow> no_response_msg
                         | Some m \<Rightarrow> format_agent_response (extracted_text m))], Inr ())"
      by (simp add: body on_completed_eq fallback_eq)
    then show "let ev = [MessagesCreate tid (ascii ''user'') content, RunsCreate tid (agent_id w)] @
                  poll_events tid (run_id run0) j @
                  [GetLastMessageText tid (ascii ''assistant''), MessagesList tid,
                   Send (case find (qualifies r) msgs of
                           None \<Rightarrow> no_response_msg
                         | Some m \<Rightarrow> format_agent_response (extracted_text m))]
         in handle_message_body w user_session content = Some (ev, Inr ()) \<and>
            handle_message w user_session content = Some ev"
      using handle_message_of_body by (simp add: Let_def)
  next
    assume "\<not> truthy (primary_text w) \<and> messages_list w = Inl e"
    then have "handle_message_body w user_session content =
        Some ([MessagesCreate tid (ascii ''user'') content, RunsCreate tid (agent_id w)] @
                  poll_events tid (run_id run0) j @
                  [GetLastMessageText tid (ascii ''assistant''), MessagesList tid], Inl e)"
      by (simp add: body on_completed_eq fallback_raises)
    then show "let ev = [MessagesCreate tid (ascii ''user'') content, RunsCreate tid (agent_id w)] @
                  poll_events tid (run_id run0) j @
                  [GetLastMessageText tid (ascii ''assistant''), MessagesList tid]
         in handle_message_body w user_session content = Some (ev, Inl e) \<and>
            handle_message w user_session content =
              Some (ev @ [Send (processing_error_msg (exn_str e))])"
      using handle_message_of_body_raised by (simp add: Let_def)
  qed
qed

theorem handle_message_completed_witness:
  "handle_message
     (example_remote completes_at_third_poll (Inr (Some (ascii ''Hi there''))) [])
     example_session (ascii ''Hello'') =
     Some [MessagesCreate (ascii ''t1'') (ascii ''user'') (ascii ''Hello''),
       RunsCreate (ascii ''t1'') (ascii ''agent-1''),
       RunsGet (ascii ''t1'') (ascii ''r1''), Sleep 1,
       RunsGet (ascii ''t1'') (ascii ''r1''), Sleep 1,
       RunsGet (ascii ''t1'') (ascii ''r1''),
       GetLastMessageText (ascii ''t1'') (ascii ''assistant''),
       Send (agent_heading @ ascii ''Hi there'')] \<and>
   handle_message
     (example_remote (always_status (ascii ''completed'')) (Inl (RemoteError (ascii ''boom'')))
       [image_only_message, hi_message])
     example_session (ascii ''Hello'') =
     Some [MessagesCreate (ascii ''t1'') (ascii ''user'') (ascii ''Hello''),
       RunsCreate (ascii ''t1'') (ascii ''agent-1''),
       RunsGet (ascii ''t1'') (ascii ''r1''),
       GetLastMessageText (ascii ''t1'') (ascii ''assistant''),
       MessagesList (ascii ''t1''),
       Send (agent_heading @ ascii ''Hi'')] \<and>
   handle_message
     (example_remote (always_status (ascii ''completed'')) (Inr (Some [])) [])
     example_session (ascii ''Hello'') =
     Some [MessagesCreate (ascii ''t1'') (ascii ''user'') (ascii ''Hello''),
       RunsCreate (ascii ''t1'') (ascii ''agent-1''),
       RunsGet (ascii ''t1'') (ascii ''r1''),
       GetLastMessageText (ascii ''t1'') (ascii ''assistant''),
       MessagesList (ascii ''t1''),
       Send no_response_msg] \<and>
   handle_message listing_fails_remote example_session (ascii ''Hello'') =
     Some [MessagesCreate (ascii ''t1'') (ascii ''user'') (ascii ''Hello''),
       RunsCreate (ascii ''t1'') (ascii ''agent-1''),
       RunsGet (ascii ''t1'') (ascii ''r1''),
       GetLastMessageText (ascii ''t1'') (ascii ''assistant''),
       MessagesList (ascii ''t1''),
       Send (processing_error_msg (ascii ''service unavailable''))]"
proof -
  let ?w1 = "example_remote completes_at_third_poll (Inr (Some (ascii ''Hi there''))) []"
  let ?w2 = "example_remote (always_status (ascii ''completed''))
      (Inl (RemoteError (ascii ''boom''))) [image_only_message, hi_message]"
  let ?w3 = "example_remote (always_status (ascii ''completed'')) (Inr (Some [])) []"
  have p1: "truthy (primary_text ?w1)"
    by (simp add: primary_text_def example_remote_sel truthy_def ascii_def)
  have p1': "primary_text ?w1 = Some (ascii ''Hi there'')"
    by (simp add: primary_text_def example_remote_sel)
  have p2: "\<not> truthy (primary_text ?w2)"
    by (simp add: primary_text_def example_remote_sel truthy_def)
  have p3: "\<not> truthy (primary_text ?w3)"
    by (simp add: primary_text_def example_remote_sel truthy_def)
  have p4: "\<not> truthy (primary_text listing_fails_remote)"
    by (simp add: primary_text_def listing_fails_sel truthy_def)
  have none: "\<forall>i<0. still_running w i \<and> \<not> past_limit w 60 i" for w
    by simp
  from handle_message_completed [of example_session "ascii ''t1''" ?w1 "()"
      "run_with_status (ascii ''queued'')" 2 "run_with_status (ascii ''completed'')"
      "ascii ''Hello''" "[]",
      OF example_session_thread t1_nonempty example_remote_sel(1) example_remote_sel(2)
        third_poll_before third_poll_completed run_status_with]
    handle_message_completed [of example_session "ascii ''t1''" ?w2 "()"
      "run_with_status (ascii ''queued'')" 0 "run_with_status (ascii ''completed'')"
      "ascii ''Hello''" "[image_only_message, hi_message]",
      OF example_session_thread t1_nonempty example_remote_sel(1) example_remote_sel(2)
        none always_completed_first_poll run_status_with]
    handle_message_completed [of example_session "ascii ''t1''" ?w3 "()"
      "run_with_status (ascii ''queued'')" 0 "run_with_status (ascii ''completed'')"
      "ascii ''Hello''" "[]",
      OF example_session_thread t1_nonempty example_remote_sel(1) example_remote_sel(2)
        none always_completed_first_poll run_status_with]
    handle_message_completed [of example_session "ascii ''t1''" listing_fails_remote "()"
      "run_with_status (ascii ''queued'')" 0 "run_with_status (ascii ''completed'')"
      "ascii ''Hello''" "[]" "RemoteError (ascii ''service unavailable'')",
      OF example_session_thread t1_nonempty listing_fails_sel(1) listing_fails_sel(2)
        none listing_fails_sel(6) run_status_with]
  show ?thesis
    using p1 p2 p3 p4
    by (simp add: Let_def example_remote_sel listing_fails_sel p1' format_hi_there
        image_only_not_qualifies hi_qualifies extracted_hi format_hi run_id_queued
        numeral_2_eq_2)
qed

text \<open>
  The claim as stated fails where the first message of the assistant created no earlier
  than the run has no text (an image only) and a later one has: the claim takes the first
  such message, whose text is absent, so that neither path yields text and the notice is
  due; the handler skips it and sends the formatted text of the later message.
\<close>

theorem handle_message_completed_skips_textless_message:
  "find (\<lambda>m. msg_role m = ascii ''assistant'' \<and>
        msg_created_at m \<ge> run_created_at (run_with_status (ascii ''completed'')))
     [image_only_message, hi_message] = Some image_only_message \<and>
   extract_message_content image_only_message = Inr None \<and>
   handle_message
     (example_remote (always_status (ascii ''completed'')) (Inr None)
       [image_only_message, hi_message])
     example_session (ascii ''Hello'') =
     Some [MessagesCreate (ascii ''t1'') (ascii ''user'') (ascii ''Hello''),
       RunsCreate (ascii ''t1'') (ascii ''agent-1''),
       RunsGet (ascii ''t1'') (ascii ''r1''),
       GetLastMessageText (ascii ''t1'') (ascii ''assistant''),
       MessagesList (ascii ''t1''),
       Send (agent_heading @ ascii ''Hi'')] \<and>
   agent_heading @ ascii ''Hi'' \<noteq> no_response_msg"
proof -
  let ?w = "example_remote (always_status (ascii ''completed'')) (Inr None)
      [image_only_message, hi_message]"
  have first: "find (\<lambda>m. msg_role m = ascii ''assistant'' \<and>
        msg_created_at m \<ge> run_created_at (run_with_status (ascii ''completed'')))
     [image_only_message, hi_message] = Some image_only_message"
    by (simp add: image_only_message_def run_with_status_def)
  have p: "\<not> truthy (primary_text ?w)"
    by (simp add: primary_text_def example_remote_sel truthy_def)
  have "handle_message_body ?w example_session (ascii ''Hello'') =
      Some (on_completed ?w (ascii ''t1'') (run_with_status (ascii ''completed''))
        ([MessagesCreate (ascii ''t1'') (ascii ''user'') (ascii ''Hello''),
          RunsCreate (ascii ''t1'') (agent_id ?w)] @ [RunsGet (ascii ''t1'') (ascii ''r1'')]))"
    using handle_message_body_after_run [of example_session "ascii ''t1''" ?w "()"
      "run_with_status (ascii ''queued'')" "[RunsGet (ascii ''t1'') (ascii ''r1'')]"
      "run_with_status (ascii ''completed'')" "ascii ''Hello''",
      OF example_session_thread t1_nonempty example_remote_sel(1) example_remote_sel(2)
        wait_always_completed]
    by (simp add: run_status_with)
  then have "handle_message_body ?w example_session (ascii ''Hello'') =
     Some ([MessagesCreate (ascii ''t1'') (ascii ''user'') (ascii ''Hello''),
       RunsCreate (ascii ''t1'') (ascii ''agent-1''),
       RunsGet (ascii ''t1'') (ascii ''r1''),
       GetLastMessageText (ascii ''t1'') (ascii ''assistant''),
       MessagesList (ascii ''t1''),
       Send (agent_heading @ ascii ''Hi'')], Inr ())"
    using p
    by (simp add: on_completed_eq fallback_eq [OF example_remote_sel(5)] example_remote_sel(3)
        image_only_not_qualifies hi_qualifies extracted_hi format_hi)
  then have sent: "handle_message ?w example_session (ascii ''Hello'') =
     Some [MessagesCreate (ascii ''t1'') (ascii ''user'') (ascii ''Hello''),
       RunsCreate (ascii ''t1'') (ascii ''agent-1''),
       RunsGet (ascii ''t1'') (ascii ''r1''),
       GetLastMessageText (ascii ''t1'') (ascii ''assistant''),
       MessagesList (ascii ''t1''),
       Send (agent_heading @ ascii ''Hi'')]"
    by (rule handle_message_of_body)
  have ne: "agent_heading @ ascii ''Hi'' \<noteq> no_response_msg"
    by (simp add: agent_heading_def no_response_msg_def ascii_simps)
  from first extract_image_only sent ne show ?thesis by blast
qed

end
